theory Spec2Isabelle
  imports Main "HOL-Library.Multiset" "HOL-Library.Word"
begin

unbundle bit_operations_syntax

section \<open>Data model (roles/i_player.hpp, core/types.hpp, core/game_config.hpp)\<close>

text \<open>
  The scoped enums \<^verbatim>\<open>roles::Team\<close>, \<^verbatim>\<open>roles::Role\<close>, \<^verbatim>\<open>core::Winner\<close> and the two enums
  of \<^verbatim>\<open>GameConfig\<close>. C++ scopes the enumerators (\<^verbatim>\<open>Team::Mafia\<close>, \<^verbatim>\<open>Role::Mafia\<close>,
  \<^verbatim>\<open>Winner::Mafia\<close>); here the scope is a prefix of the constructor.
\<close>

datatype Team = Team_Town | Team_Mafia | Team_Maniac

datatype Role =
    Role_Citizen | Role_Mafia | Role_Detective | Role_Doctor | Role_Maniac
  | Role_Executioner | Role_Journalist | Role_Eavesdropper

datatype Winner = Winner_None | Winner_Town | Winner_Mafia | Winner_Maniac

datatype LogMode = Short | Full

datatype TiePolicy = TiePolicy_None | TiePolicy_Random

text \<open>
  \<^verbatim>\<open>core::Rng\<close> wraps \<^verbatim>\<open>std::mt19937_64\<close>. The engine itself is not modelled: a
  generator is the tape of raw draws it will still produce (an exhausted tape draws 0).
  \<^verbatim>\<open>uniform_int(a, b)\<close> maps one raw draw into the closed range, so that every
  in-range outcome is reachable and no other; the distribution is not modelled.
\<close>

type_synonym rng = "nat list"

definition uniform_int :: "int \<Rightarrow> int \<Rightarrow> rng \<Rightarrow> int \<times> rng" where
  "uniform_int a b g =
     (let lo = min a b; hi = max a b;
          x = (case g of [] \<Rightarrow> 0 | y # _ \<Rightarrow> y)
      in (lo + int (x mod nat (hi - lo + 1)), tl g))"

text \<open>
  \<^verbatim>\<open>Rng::choose(first, last)\<close>: the end iterator (here \<open>None\<close>) on an empty range,
  without a draw; otherwise the element at index \<^verbatim>\<open>uniform_int(0, n - 1)\<close>.
\<close>

definition rng_choose :: "'a list \<Rightarrow> rng \<Rightarrow> 'a option \<times> rng" where
  "rng_choose xs g =
     (let n = int (length xs) in
      if n \<le> 0 then (None, g)
      else (let (idx, g') = uniform_int 0 (n - 1) g in (Some (xs ! nat idx), g')))"

text \<open>
  A player object (\<^verbatim>\<open>roles::BasePlayer\<close>): id, name, role, team and the alive flag, the
  agent's own generator, and whether the object is of class \<^verbatim>\<open>roles::Human\<close> (the
  engine builds a \<^verbatim>\<open>Human\<close> with the role drawn for its seat) rather than of the role's
  own class. A slot of the player vector is a \<^verbatim>\<open>shared_like<IPlayer>\<close>, which may be
  null: \<open>None\<close>.
\<close>

record player =
  pid :: nat
  name :: string
  role :: Role
  team :: Team
  alive :: bool
  is_human :: bool
  prng :: rng

type_synonym players = "player option list"

record GameConfig =
  n_players :: nat
  seed :: nat
  human :: bool
  log_mode :: LogMode
  open_announcements :: bool
  logs_dir :: string
  tie_policy :: TiePolicy
  k_mafia_divisor :: nat
  yaml_path :: string
  executioner_count :: nat
  journalist_count :: nat
  eavesdropper_count :: nat
  use_coroutines :: bool

text \<open>The default member initialisers of \<^verbatim>\<open>struct GameConfig\<close> (core/game_config.hpp).\<close>

definition default_config :: GameConfig where
  "default_config =
     \<lparr>n_players = 9, seed = 0, human = False, log_mode = Short, open_announcements = False,
      logs_dir = ''logs'', tie_policy = TiePolicy_None, k_mafia_divisor = 3, yaml_path = [],
      executioner_count = 1, journalist_count = 1, eavesdropper_count = 1,
      use_coroutines = False\<rparr>"

section \<open>Text produced by the Moderator (core/moderator.cpp, anonymous namespace)\<close>

text \<open>\<^verbatim>\<open>std::to_string\<close> on an unsigned value: its decimal digits.\<close>

fun to_string :: "nat \<Rightarrow> string" where
  "to_string n =
     (if n < 10 then [''0123456789'' ! n]
      else to_string (n div 10) @ [''0123456789'' ! (n mod 10)])"

declare to_string.simps [simp del]

definition to_string_int :: "int \<Rightarrow> string" where
  "to_string_int i = (if i < 0 then ''-'' @ to_string (nat (- i)) else to_string (nat i))"

text \<open>
  \<^verbatim>\<open>role_ru\<close> and \<^verbatim>\<open>team_ru\<close> return Russian names; the strings are the UTF-8 bytes
  of the source literals.
\<close>

fun role_ru :: "Role \<Rightarrow> string" where
  "role_ru Role_Citizen =
     [CHR 0xD0, CHR 0x9C, CHR 0xD0, CHR 0xB8, CHR 0xD1, CHR 0x80, CHR 0xD0, CHR 0xBD, CHR 0xD1,
      CHR 0x8B, CHR 0xD0, CHR 0xB9, CHR 0x20, CHR 0xD0, CHR 0xB6, CHR 0xD0, CHR 0xB8, CHR 0xD1,
      CHR 0x82, CHR 0xD0, CHR 0xB5, CHR 0xD0, CHR 0xBB, CHR 0xD1, CHR 0x8C]"
| "role_ru Role_Mafia =
     [CHR 0xD0, CHR 0x9C, CHR 0xD0, CHR 0xB0, CHR 0xD1, CHR 0x84, CHR 0xD0, CHR 0xB8, CHR 0xD1,
      CHR 0x8F]"
| "role_ru Role_Detective =
     [CHR 0xD0, CHR 0x9A, CHR 0xD0, CHR 0xBE, CHR 0xD0, CHR 0xBC, CHR 0xD0, CHR 0xB8, CHR 0xD1,
      CHR 0x81, CHR 0xD1, CHR 0x81, CHR 0xD0, CHR 0xB0, CHR 0xD1, CHR 0x80]"
| "role_ru Role_Doctor =
     [CHR 0xD0, CHR 0x94, CHR 0xD0, CHR 0xBE, CHR 0xD0, CHR 0xBA, CHR 0xD1, CHR 0x82, CHR 0xD0,
      CHR 0xBE, CHR 0xD1, CHR 0x80]"
| "role_ru Role_Maniac =
     [CHR 0xD0, CHR 0x9C, CHR 0xD0, CHR 0xB0, CHR 0xD0, CHR 0xBD, CHR 0xD1, CHR 0x8C, CHR 0xD1,
      CHR 0x8F, CHR 0xD0, CHR 0xBA]"
| "role_ru Role_Executioner =
     [CHR 0xD0, CHR 0x9F, CHR 0xD0, CHR 0xB0, CHR 0xD0, CHR 0xBB, CHR 0xD0, CHR 0xB0, CHR 0xD1,
      CHR 0x87]"
| "role_ru Role_Journalist =
     [CHR 0xD0, CHR 0x96, CHR 0xD1, CHR 0x83, CHR 0xD1, CHR 0x80, CHR 0xD0, CHR 0xBD, CHR 0xD0,
      CHR 0xB0, CHR 0xD0, CHR 0xBB, CHR 0xD0, CHR 0xB8, CHR 0xD1, CHR 0x81, CHR 0xD1, CHR 0x82]"
| "role_ru Role_Eavesdropper =
     [CHR 0xD0, CHR 0xA3, CHR 0xD1, CHR 0x88, CHR 0xD0, CHR 0xB0, CHR 0xD1, CHR 0x81, CHR 0xD1,
      CHR 0x82, CHR 0xD0, CHR 0xB8, CHR 0xD0, CHR 0xBA]"

fun team_ru :: "Team \<Rightarrow> string" where
  "team_ru Team_Town =
     [CHR 0xD0, CHR 0x9C, CHR 0xD0, CHR 0xB8, CHR 0xD1, CHR 0x80, CHR 0xD0, CHR 0xBD, CHR 0xD1,
      CHR 0x8B, CHR 0xD0, CHR 0xB5]"
| "team_ru Team_Mafia =
     [CHR 0xD0, CHR 0x9C, CHR 0xD0, CHR 0xB0, CHR 0xD1, CHR 0x84, CHR 0xD0, CHR 0xB8, CHR 0xD1,
      CHR 0x8F]"
| "team_ru Team_Maniac =
     [CHR 0xD0, CHR 0x9C, CHR 0xD0, CHR 0xB0, CHR 0xD0, CHR 0xBD, CHR 0xD1, CHR 0x8C, CHR 0xD1,
      CHR 0x8F, CHR 0xD0, CHR 0xBA]"

definition player_tag :: "player \<Rightarrow> nat \<Rightarrow> string" where
  "player_tag p idx = ''#'' @ to_string (idx + 1) @ '' '' @ name p"

section \<open>The Moderator's state (core/moderator.hpp)\<close>

text \<open>
  The fields of \<^verbatim>\<open>class Moderator\<close>, with the trailing underscore of the source names
  dropped. \<open>players\<close> is the vector behind \<^verbatim>\<open>state_->players()\<close>; \<open>rng\<close> is the
  generator behind \<^verbatim>\<open>rng_\<close>. The two sinks the Moderator writes to are part of the state:
  \<open>console\<close> holds the lines given to the root logger (level and text, oldest first),
  \<open>files\<close> the files written so far (name and content, oldest first), and
  \<open>opened\<close> every attempt to open a file for writing (name and whether it succeeded).
  \<open>round_log\<close> is the buffer \<^verbatim>\<open>round_log_\<close> as the list of the pieces appended to it;
  the file receives their concatenation. \<open>opens\<close> is the file system: for the number
  of attempts made so far and a file name, whether \<^verbatim>\<open>std::ofstream\<close> manages to open
  that file.
  \<^verbatim>\<open>int\<close> counters are \<open>int\<close>, \<^verbatim>\<open>std::size_t\<close> ids are \<open>nat\<close>: every id that is
  stored is below the length of the player vector.
\<close>

datatype LogLevel = Info | Warn | Error

record Moderator =
  cfg :: GameConfig
  players :: players
  rng :: rng
  day_votes :: "nat option list"
  mafia_vote_counts :: "int list"
  detective_shot :: "nat option"
  doctor_heal :: "nat option"
  maniac_target :: "nat option"
  journalist_queries :: "(nat \<times> nat \<times> nat) list"
  eavesdrop_requests :: "(nat \<times> nat) list"
  stats_votes_given_day :: "int list"
  stats_votes_received_day :: "int list"
  stats_mafia_votes :: "int list"
  stats_detective_shots :: "int list"
  stats_doctor_heals :: "int list"
  stats_maniac_targets :: "int list"
  stats_died_round :: "int list"
  day_voted_flag :: "bool list"
  round_index :: int
  round_written :: bool
  round_log :: "string list"
  console :: "(LogLevel \<times> string) list"
  files :: "(string \<times> string) list"
  opened :: "(string \<times> bool) list"
  opens :: "nat \<Rightarrow> string \<Rightarrow> bool"

definition is_full_logs :: "Moderator \<Rightarrow> bool" where
  "is_full_logs m = (log_mode (cfg m) = Full)"

definition is_open :: "Moderator \<Rightarrow> bool" where
  "is_open m = open_announcements (cfg m)"

definition root_info :: "string \<Rightarrow> Moderator \<Rightarrow> Moderator" where
  "root_info msg m = m\<lparr>console := console m @ [(Info, msg)]\<rparr>"

definition root_error :: "string \<Rightarrow> Moderator \<Rightarrow> Moderator" where
  "root_error msg m = m\<lparr>console := console m @ [(Error, msg)]\<rparr>"

definition log_info :: "string \<Rightarrow> Moderator \<Rightarrow> Moderator" where
  "log_info msg m = root_info msg m"

definition round_append :: "string \<Rightarrow> Moderator \<Rightarrow> Moderator" where
  "round_append line m = m\<lparr>round_log := round_log m @ [line]\<rparr>"

text \<open>
  \<^verbatim>\<open>*ps[i]\<close>: the object behind slot \<open>i\<close>. The source dereferences without a check
  where an earlier check or an invariant of the buffers makes the slot valid; on a null
  or out-of-range slot the C++ is undefined and so is the value here.
\<close>

definition deref :: "players \<Rightarrow> nat \<Rightarrow> player" where
  "deref ps i = the (ps ! i)"

text \<open>\<^verbatim>\<open>ps[i] && ps[i]->is_alive()\<close> for an index already known to be in range.\<close>

definition slot_alive :: "player option \<Rightarrow> bool" where
  "slot_alive s = (case s of None \<Rightarrow> False | Some p \<Rightarrow> alive p)"

subsection \<open>Read-only queries\<close>

definition is_alive :: "players \<Rightarrow> nat \<Rightarrow> bool" where
  "is_alive ps i = (i < length ps \<and> (case ps ! i of None \<Rightarrow> False | Some p \<Rightarrow> alive p))"

definition is_mafia :: "players \<Rightarrow> nat \<Rightarrow> bool" where
  "is_mafia ps i =
     (i < length ps \<and>
      (case ps ! i of None \<Rightarrow> False | Some p \<Rightarrow> alive p \<and> team p = Team_Mafia))"

definition is_maniac :: "players \<Rightarrow> nat \<Rightarrow> bool" where
  "is_maniac ps i =
     (i < length ps \<and>
      (case ps ! i of None \<Rightarrow> False | Some p \<Rightarrow> alive p \<and> team p = Team_Maniac))"

definition is_town :: "players \<Rightarrow> nat \<Rightarrow> bool" where
  "is_town ps i =
     (i < length ps \<and>
      (case ps ! i of None \<Rightarrow> False | Some p \<Rightarrow> alive p \<and> team p = Team_Town))"

text \<open>
  The four counting loops \<^verbatim>\<open>for (const auto& p : ps) if (p && p->is_alive() && ...) ++c\<close>,
  each from the first slot to the last.
\<close>

fun alive_mafia_count :: "players \<Rightarrow> nat" where
  "alive_mafia_count [] = 0"
| "alive_mafia_count (s # ps) =
     (case s of
        None \<Rightarrow> alive_mafia_count ps
      | Some p \<Rightarrow> if alive p \<and> team p = Team_Mafia then Suc (alive_mafia_count ps)
                  else alive_mafia_count ps)"

fun alive_town_count :: "players \<Rightarrow> nat" where
  "alive_town_count [] = 0"
| "alive_town_count (s # ps) =
     (case s of
        None \<Rightarrow> alive_town_count ps
      | Some p \<Rightarrow> if alive p \<and> team p = Team_Town then Suc (alive_town_count ps)
                  else alive_town_count ps)"

fun alive_maniac_count :: "players \<Rightarrow> nat" where
  "alive_maniac_count [] = 0"
| "alive_maniac_count (s # ps) =
     (case s of
        None \<Rightarrow> alive_maniac_count ps
      | Some p \<Rightarrow> if alive p \<and> team p = Team_Maniac then Suc (alive_maniac_count ps)
                  else alive_maniac_count ps)"

text \<open>\<^verbatim>\<open>Moderator::evaluate_winner\<close>, the three tests in the order of the source.\<close>

definition evaluate_winner :: "players \<Rightarrow> Winner" where
  "evaluate_winner ps =
     (let maf = alive_mafia_count ps;
          man = alive_maniac_count ps;
          town = alive_town_count ps
      in if maf = 0 \<and> man = 0 then Winner_Town
         else if man = 1 \<and> town = 1 \<and> maf = 0 then Winner_Maniac
         else if maf > 0 \<and> maf \<ge> town + man then Winner_Mafia
         else Winner_None)"

text \<open>\<^verbatim>\<open>Moderator::investigate\<close>: the detective's id is an unnamed, unused parameter.\<close>

definition investigate :: "players \<Rightarrow> nat \<Rightarrow> nat \<Rightarrow> bool" where
  "investigate ps detective_id target = is_mafia ps target"

section \<open>The Moderator's operations: Day (core/moderator.cpp)\<close>

text \<open>\<^verbatim>\<open>std::vector::resize(n)\<close> with the value new slots get.\<close>

definition resize :: "'a list \<Rightarrow> nat \<Rightarrow> 'a \<Rightarrow> 'a list" where
  "resize xs n d = take n xs @ replicate (n - length xs) d"





text \<open>\<^verbatim>\<open>if (i < v.size()) ++v[i];\<close>\<close>

definition bump :: "int list \<Rightarrow> nat \<Rightarrow> int list" where
  "bump v i = (if i < length v then v[i := v ! i + 1] else v)"

definition submit_day_vote :: "nat \<Rightarrow> nat \<Rightarrow> Moderator \<Rightarrow> Moderator" where
  "submit_day_vote voter target m =
     (let ps = players m; n = length ps in
      if voter \<ge> n \<or> target \<ge> n then m
      else case (ps ! voter, ps ! target) of
        (Some pv, Some pt) \<Rightarrow>
          if \<not> alive pv \<or> \<not> alive pt then m
          else
            (let m1 = (if length (day_votes m) \<noteq> n
                       then m\<lparr>day_votes := resize (day_votes m) n None\<rparr> else m);
                 m2 = (if voter < length (day_voted_flag m1) \<and> \<not> day_voted_flag m1 ! voter
                       then m1\<lparr>day_voted_flag := (day_voted_flag m1)[voter := True],
                               stats_votes_given_day := bump (stats_votes_given_day m1) voter\<rparr>
                       else m1);
                 m3 = m2\<lparr>day_votes := (day_votes m2)[voter := Some target]\<rparr>;
                 m4 = round_append (''DAY: vote '' @ player_tag pv voter @ '' -> ''
                                     @ player_tag pt target @ [CHR 0x0A]) m3
             in if is_full_logs m4
                then root_info (''Day vote: #'' @ to_string (voter + 1) @ '' -> #''
                                 @ to_string (target + 1)) m4
                else m4)
      | _ \<Rightarrow> m)"

text \<open>\<^verbatim>\<open>Moderator::kill_player\<close>: idempotent; the neutral console line in closed mode.\<close>

definition kill_player :: "nat \<Rightarrow> Moderator \<Rightarrow> Moderator" where
  "kill_player i m =
     (let ps = players m in
      if i \<ge> length ps then m
      else case ps ! i of
        None \<Rightarrow> m
      | Some p \<Rightarrow>
          if \<not> alive p then m
          else
            (let m1 = m\<lparr>players := ps[i := Some (p\<lparr>alive := False\<rparr>)]\<rparr>
             in if \<not> is_open m1
                then root_info (''Player #'' @ to_string (i + 1) @ '' has died'') m1
                else m1))"

text \<open>
  \<^verbatim>\<open>roles::Executioner::decide_execution\<close> (roles/executioner.hpp): a dead executioner
  and an empty list abstain without a draw; otherwise a coin, and on the other side of
  the coin one of the leaders. The result is the decision and the agent's generator
  after the draws.
\<close>

definition decide_execution :: "player \<Rightarrow> nat list \<Rightarrow> nat option \<times> rng" where
  "decide_execution p leaders =
     (if \<not> alive p \<or> leaders = [] then (None, prng p)
      else (let (coin, g1) = uniform_int 0 1 (prng p) in
            if coin = 0 then (None, g1) else rng_choose leaders g1))"

text \<open>
  \<^verbatim>\<open>Moderator::resolve_tie_via_executioner_\<close>: the loop over the slots \<open>is\<close> still to
  visit. A slot is asked when it is non-null, alive, has the role Executioner and
  \<^verbatim>\<open>dynamic_cast<roles::Executioner*>\<close> succeeds. The only classes of the repository that
  can carry \<^verbatim>\<open>Role::Executioner\<close> are \<^verbatim>\<open>roles::Executioner\<close> and \<^verbatim>\<open>roles::Human\<close>
  (both \<^verbatim>\<open>final\<close>, both derived from \<^verbatim>\<open>BasePlayer\<close>), so the cast fails exactly on a
  \<^verbatim>\<open>Human\<close>.
\<close>

fun tie_loop :: "nat list \<Rightarrow> nat list \<Rightarrow> Moderator \<Rightarrow> nat option \<times> Moderator" where
  "tie_loop [] leaders m = (None, m)"
| "tie_loop (i # is) leaders m =
     (case players m ! i of
        None \<Rightarrow> tie_loop is leaders m
      | Some p \<Rightarrow>
          if \<not> alive p then tie_loop is leaders m
          else if role p \<noteq> Role_Executioner then tie_loop is leaders m
          else if is_human p then tie_loop is leaders m
          else
            (let (decision, g) = decide_execution p leaders;
                 m1 = m\<lparr>players := (players m)[i := Some (p\<lparr>prng := g\<rparr>)]\<rparr>
             in case decision of
                  None \<Rightarrow>
                    tie_loop is leaders
                      (round_append (''DAY: executioner abstains ('' @ player_tag p i @ '')''
                                      @ [CHR 0x0A]) m1)
                | Some victim \<Rightarrow>
                    if victim \<notin> set leaders
                    then tie_loop is leaders
                           (round_append (''DAY: executioner invalid choice by ''
                                           @ player_tag p i @ [CHR 0x0A]) m1)
                    else (Some victim,
                          round_append (''DAY: executioner chooses ''
                                         @ player_tag (deref (players m1) victim) victim
                                         @ [CHR 0x0A]) m1)))"

definition resolve_tie_via_executioner :: "nat list \<Rightarrow> Moderator \<Rightarrow> nat option \<times> Moderator" where
  "resolve_tie_via_executioner leaders m = tie_loop [0..<length (players m)] leaders m"

text \<open>The pieces of \<^verbatim>\<open>Moderator::resolve_day_lynch\<close>, in the order of the source.\<close>

definition day_votes_text :: "players \<Rightarrow> nat option list \<Rightarrow> string" where
  "day_votes_text ps votes =
     foldl (\<lambda>s i.
        if \<not> slot_alive (ps ! i) then s
        else s @ '' #'' @ to_string (i + 1) @ ''->''
               @ (case votes ! i of Some t \<Rightarrow> ''#'' @ to_string (t + 1) | None \<Rightarrow> ''-''))
       ''Day votes:'' [0..<length ps]"

definition day_tally :: "players \<Rightarrow> nat option list \<Rightarrow> int list" where
  "day_tally ps votes =
     foldl (\<lambda>tally v.
        if \<not> slot_alive (ps ! v) then tally
        else case votes ! v of
          None \<Rightarrow> tally
        | Some t \<Rightarrow>
            if t \<ge> length ps \<or> \<not> slot_alive (ps ! t) then tally
            else tally[t := tally ! t + 1])
       (replicate (length ps) 0) [0..<length ps]"

definition add_received :: "int list \<Rightarrow> int list \<Rightarrow> int list" where
  "add_received tally stats =
     foldl (\<lambda>st i. if tally ! i > 0 \<and> i < length st then st[i := st ! i + tally ! i] else st)
       stats [0..<length tally]"

definition max_count :: "int list \<Rightarrow> int" where
  "max_count tally = foldl max 0 tally"

definition vote_leaders :: "int list \<Rightarrow> int \<Rightarrow> nat list" where
  "vote_leaders tally max_votes = filter (\<lambda>i. tally ! i = max_votes) [0..<length tally]"

definition mark_died :: "nat \<Rightarrow> Moderator \<Rightarrow> Moderator" where
  "mark_died victim m =
     (if victim < length (stats_died_round m) \<and> stats_died_round m ! victim = 0
      then m\<lparr>stats_died_round := (stats_died_round m)[victim := round_index m]\<rparr>
      else m)"

definition lynch_lines :: "nat \<Rightarrow> Moderator \<Rightarrow> Moderator" where
  "lynch_lines victim m =
     (let p = deref (players m) victim;
          m1 = round_append (''DAY: lynch victim '' @ player_tag p victim
                              @ '' ('' @ role_ru (role p) @ '')'' @ [CHR 0x0A]) m
      in if is_open m1
         then root_info (''Day: lynched #'' @ to_string (victim + 1)
                          @ '' ('' @ role_ru (role p) @ '')'') m1
         else root_info (''Day: lynched player #'' @ to_string (victim + 1)) m1)"

text \<open>
  The first part of \<^verbatim>\<open>resolve_day_lynch\<close>: the snapshot of the ballots (the buffer
  resized to the player vector if need be), the console line of the full log, the tally
  of the final ballots from alive voters to alive targets, and the received-votes
  statistics.
\<close>

definition count_final_votes :: "Moderator \<Rightarrow> int list \<times> Moderator" where
  "count_final_votes m =
     (let ps = players m; n = length ps;
          m1 = (if length (day_votes m) \<noteq> n
                then m\<lparr>day_votes := resize (day_votes m) n None\<rparr> else m);
          votes_copy = day_votes m1;
          m2 = (if is_full_logs m1 then root_info (day_votes_text ps votes_copy) m1 else m1);
          tally = day_tally ps votes_copy
      in (tally,
          m2\<lparr>stats_votes_received_day := add_received tally (stats_votes_received_day m2)\<rparr>))"

definition resolve_day_lynch :: "Moderator \<Rightarrow> nat option \<times> Moderator" where
  "resolve_day_lynch m =
     (let (tally, m3) = count_final_votes m;
          max_votes = max_count tally
      in if max_votes \<le> 0
         then (None,
               round_append (''DAY: no lynch'' @ [CHR 0x0A])
                 (root_info ''Day: no valid votes; nobody is lynched'' m3))
         else
           (let leaders = vote_leaders tally max_votes in
            if length leaders > 1
            then (case tie_policy (cfg m3) of
                TiePolicy_None \<Rightarrow>
                  (case resolve_tie_via_executioner leaders m3 of
                     (None, m4) \<Rightarrow>
                       (None,
                        round_append (''DAY: tie -> no lynch'' @ [CHR 0x0A])
                          (root_info
                             ''Day: tie detected; tie policy = none -> nobody is lynched'' m4))
                   | (Some victim, m4) \<Rightarrow>
                       (let p = deref (players m4) victim;
                            m5 = round_append (''DAY: executioner-lynch '' @ player_tag p victim
                                                @ '' ('' @ role_ru (role p) @ '')'' @ [CHR 0x0A]) m4;
                            m6 = root_info (''Day: executioner chose victim #''
                                             @ to_string (victim + 1)) m5
                        in (Some victim, kill_player victim (mark_died victim m6))))
              | TiePolicy_Random \<Rightarrow>
                  (let (it, g) = rng_choose leaders (rng m3);
                       victim = the it;
                       m4 = m3\<lparr>rng := g\<rparr>;
                       m5 = round_append (''DAY: tie -> victim chosen randomly'' @ [CHR 0x0A])
                              (root_info ''Day: tie detected; victim chosen randomly'' m4)
                   in (Some victim, kill_player victim (mark_died victim (lynch_lines victim m5)))))
            else
              (let victim = hd leaders
               in (Some victim, kill_player victim (mark_died victim (lynch_lines victim m3))))))"

section \<open>The Moderator's operations: Night (core/moderator.cpp)\<close>

definition mafia_vote_target :: "nat \<Rightarrow> nat \<Rightarrow> Moderator \<Rightarrow> Moderator" where
  "mafia_vote_target mafia_id target m =
     (let ps = players m; n = length ps in
      if mafia_id \<ge> n \<or> target \<ge> n then m
      else case (ps ! mafia_id, ps ! target) of
        (Some pm, Some pt) \<Rightarrow>
          if \<not> alive pm \<or> \<not> alive pt then m
          else if \<not> is_mafia ps mafia_id then m
          else
            (let counts = (if length (mafia_vote_counts m) \<noteq> n then replicate n 0
                           else mafia_vote_counts m);
                 m1 = m\<lparr>mafia_vote_counts := counts[target := counts ! target + 1],
                        stats_mafia_votes := bump (stats_mafia_votes m) mafia_id\<rparr>;
                 m2 = round_append (''NIGHT: mafia-vote '' @ player_tag pm mafia_id @ '' -> ''
                                     @ player_tag pt target @ [CHR 0x0A]) m1
             in if is_full_logs m2 \<and> is_open m2
                then root_info (''Night (open): mafia vote by #'' @ to_string (mafia_id + 1)
                                 @ '' -> #'' @ to_string (target + 1)) m2
                else m2)
      | _ \<Rightarrow> m)"

definition set_detective_shot :: "nat \<Rightarrow> nat \<Rightarrow> Moderator \<Rightarrow> Moderator" where
  "set_detective_shot detective_id target m =
     (let ps = players m; n = length ps in
      if detective_id \<ge> n \<or> target \<ge> n then m
      else case (ps ! detective_id, ps ! target) of
        (Some pd, Some pt) \<Rightarrow>
          if \<not> alive pd \<or> \<not> alive pt then m
          else
            (let m1 = m\<lparr>detective_shot := Some target,
                        stats_detective_shots := bump (stats_detective_shots m) detective_id\<rparr>;
                 m2 = round_append (''NIGHT: detective-shot -> '' @ player_tag pt target
                                     @ [CHR 0x0A]) m1
             in if is_full_logs m2 \<and> is_open m2
                then root_info (''Night (open): detective shot -> #'' @ to_string (target + 1)) m2
                else m2)
      | _ \<Rightarrow> m)"

definition set_doctor_heal :: "nat \<Rightarrow> nat \<Rightarrow> Moderator \<Rightarrow> Moderator" where
  "set_doctor_heal doctor_id target m =
     (let ps = players m; n = length ps in
      if doctor_id \<ge> n \<or> target \<ge> n then m
      else case (ps ! doctor_id, ps ! target) of
        (Some pd, Some pt) \<Rightarrow>
          if \<not> alive pd \<or> \<not> alive pt then m
          else
            (let m1 = m\<lparr>doctor_heal := Some target,
                        stats_doctor_heals := bump (stats_doctor_heals m) doctor_id\<rparr>;
                 m2 = round_append (''NIGHT: doctor-heal '' @ player_tag pt target
                                     @ [CHR 0x0A]) m1
             in if is_full_logs m2 \<and> is_open m2
                then root_info (''Night (open): doctor heals #'' @ to_string (target + 1)) m2
                else m2)
      | _ \<Rightarrow> m)"

definition set_maniac_target :: "nat \<Rightarrow> nat \<Rightarrow> Moderator \<Rightarrow> Moderator" where
  "set_maniac_target maniac_id target m =
     (let ps = players m; n = length ps in
      if maniac_id \<ge> n \<or> target \<ge> n then m
      else case (ps ! maniac_id, ps ! target) of
        (Some pm, Some pt) \<Rightarrow>
          if \<not> alive pm \<or> \<not> alive pt then m
          else if \<not> is_maniac ps maniac_id then m
          else
            (let m1 = m\<lparr>maniac_target := Some target,
                        stats_maniac_targets := bump (stats_maniac_targets m) maniac_id\<rparr>;
                 m2 = round_append (''NIGHT: maniac-target -> '' @ player_tag pt target
                                     @ [CHR 0x0A]) m1
             in if is_full_logs m2 \<and> is_open m2
                then root_info (''Night (open): maniac targets #'' @ to_string (target + 1)) m2
                else m2)
      | _ \<Rightarrow> m)"

definition set_journalist_compare :: "nat \<Rightarrow> nat \<Rightarrow> nat \<Rightarrow> Moderator \<Rightarrow> Moderator" where
  "set_journalist_compare journalist_id a b m =
     (let ps = players m; n = length ps in
      if journalist_id \<ge> n \<or> a \<ge> n \<or> b \<ge> n then m
      else if a = b then m
      else if journalist_id = a \<or> journalist_id = b then m
      else case (ps ! journalist_id, ps ! a, ps ! b) of
        (Some pj, Some pa, Some pb) \<Rightarrow>
          if \<not> alive pj \<or> \<not> alive pa \<or> \<not> alive pb then m
          else
            round_append (''NIGHT: journalist-compare by '' @ player_tag pj journalist_id
                           @ '' -> '' @ player_tag pa a @ '' vs '' @ player_tag pb b
                           @ [CHR 0x0A])
              (m\<lparr>journalist_queries := journalist_queries m @ [(journalist_id, a, b)]\<rparr>)
      | _ \<Rightarrow> m)"

definition set_eavesdropper_target :: "nat \<Rightarrow> nat \<Rightarrow> Moderator \<Rightarrow> Moderator" where
  "set_eavesdropper_target eavesdropper_id target m =
     (let ps = players m; n = length ps in
      if eavesdropper_id \<ge> n \<or> target \<ge> n then m
      else if eavesdropper_id = target then m
      else case (ps ! eavesdropper_id, ps ! target) of
        (Some pe, Some pt) \<Rightarrow>
          if \<not> alive pe \<or> \<not> alive pt then m
          else
            round_append (''NIGHT: eavesdropper-target by '' @ player_tag pe eavesdropper_id
                           @ '' -> '' @ player_tag pt target @ [CHR 0x0A])
              (m\<lparr>eavesdrop_requests := eavesdrop_requests m @ [(eavesdropper_id, target)]\<rparr>)
      | _ \<Rightarrow> m)"

definition clear_night_intents :: "Moderator \<Rightarrow> Moderator" where
  "clear_night_intents m =
     m\<lparr>mafia_vote_counts := replicate (length (players m)) 0,
       detective_shot := None, doctor_heal := None, maniac_target := None,
       journalist_queries := [], eavesdrop_requests := []\<rparr>"

text \<open>
  \<^verbatim>\<open>round_write_file_\<close>: nothing when the round is already marked written; otherwise one
  attempt to open \<^verbatim>\<open>logs_dir/round_<index>.txt\<close>. A failed attempt logs an error and
  marks the round written all the same; a successful one writes the UTF-8 byte order
  mark, the buffer and the closing line.
\<close>

definition round_file_name :: "Moderator \<Rightarrow> string" where
  "round_file_name m = logs_dir (cfg m) @ ''/round_'' @ to_string_int (round_index m) @ ''.txt''"

definition round_write_file :: "bool \<Rightarrow> Moderator \<Rightarrow> Moderator" where
  "round_write_file night_completed m =
     (if round_written m then m
      else
        (let fname = round_file_name m;
             ok = opens m (length (opened m)) fname;
             m1 = m\<lparr>opened := opened m @ [(fname, ok)]\<rparr>
         in if \<not> ok
            then (root_error (''Failed to write round file: '' @ fname) m1)\<lparr>round_written := True\<rparr>
            else
              m1\<lparr>files := files m1 @
                     [(fname,
                       [CHR 0xEF, CHR 0xBB, CHR 0xBF] @ concat (round_log m1)
                       @ ''=== ROUND '' @ to_string_int (round_index m1) @ '' END''
                       @ (if night_completed then '' (night completed)'' else '' (no night)'')
                       @ '' ==='' @ [CHR 0x0A])],
                  round_written := True\<rparr>))"

definition finalize_round_file_if_pending :: "Moderator \<Rightarrow> Moderator" where
  "finalize_round_file_if_pending m =
     (if round_index m > 0 \<and> \<not> round_written m then round_write_file False m else m)"

text \<open>The pieces of \<^verbatim>\<open>Moderator::resolve_night\<close>, in the order of the source.\<close>

definition mafia_tally_console :: "players \<Rightarrow> int list \<Rightarrow> string" where
  "mafia_tally_console ps counts =
     (let (s, any) =
        foldl (\<lambda>(s, any) i.
           if counts ! i > 0 \<and> slot_alive (ps ! i)
           then (s @ '' #'' @ to_string (i + 1) @ ''('' @ to_string_int (counts ! i) @ '')'', True)
           else (s, any))
          (''Night (open): mafia tally:'', False) [0..<length ps]
      in if \<not> any then s @ '' none'' else s)"

definition mafia_tally_line :: "players \<Rightarrow> int list \<Rightarrow> string" where
  "mafia_tally_line ps counts =
     (let (s, any) =
        foldl (\<lambda>(s, any) i.
           if counts ! i > 0 \<and> slot_alive (ps ! i)
           then (s @ '' '' @ player_tag (deref ps i) i @ ''('' @ to_string_int (counts ! i)
                   @ '')'', True)
           else (s, any))
          (''NIGHT: mafia-tally'', False) [0..<length ps]
      in (if \<not> any then s @ '' none'' else s) @ [CHR 0x0A])"

text \<open>The mafia's target: a leader of the tally that is alive, drawn by the Moderator.\<close>

definition select_mafia_target :: "players \<Rightarrow> int list \<Rightarrow> rng \<Rightarrow> nat option \<times> rng" where
  "select_mafia_target ps counts g =
     (let maxv = foldl max 0 counts in
      if maxv > 0
      then (let cands = filter (\<lambda>i. counts ! i = maxv \<and> slot_alive (ps ! i)) [0..<length ps]
            in if cands \<noteq> [] then rng_choose cands g else (None, g))
      else (None, g))"

text \<open>The lambda \<^verbatim>\<open>mark_shot\<close>, on the pair of the kill marks and the Moderator.\<close>

definition mark_shot ::
  "nat option \<Rightarrow> string \<Rightarrow> bool list \<times> Moderator \<Rightarrow> bool list \<times> Moderator" where
  "mark_shot tid src km =
     (case tid of
        None \<Rightarrow> km
      | Some t \<Rightarrow>
          (let (to_kill, m) = km; ps = players m in
           if t < length ps \<and> slot_alive (ps ! t)
           then (to_kill[t := True],
                 round_append (''NIGHT: marked-by-'' @ src @ '' '' @ player_tag (deref ps t) t
                                @ [CHR 0x0A]) m)
           else km))"

definition apply_heal :: "nat option \<Rightarrow> bool list \<times> Moderator \<Rightarrow> bool list \<times> Moderator" where
  "apply_heal heal km =
     (case heal of
        None \<Rightarrow> km
      | Some h \<Rightarrow>
          (let (to_kill, m) = km; ps = players m in
           if h < length ps \<and> slot_alive (ps ! h)
           then
             (let m1 = (if is_full_logs m \<and> is_open m
                        then root_info (''Night (open): heal cancels death of #''
                                         @ to_string (h + 1)) m
                        else m)
              in (to_kill[h := False],
                  round_append (''NIGHT: heal-cancels '' @ player_tag (deref ps h) h
                                 @ [CHR 0x0A]) m1))
           else km))"

definition journalist_result :: "Moderator \<Rightarrow> nat \<times> nat \<times> nat \<Rightarrow> Moderator" where
  "journalist_result m q =
     (let (jid, a, b) = q; ps = players m; n = length ps in
      if a \<ge> n \<or> b \<ge> n then m
      else case (ps ! a, ps ! b) of
        (Some pa, Some pb) \<Rightarrow>
          round_append (''NIGHT: journalist-result by '' @ player_tag (deref ps jid) jid
                         @ '' -> '' @ player_tag pa a @ '' vs '' @ player_tag pb b @ '' : ''
                         @ (if team pa = team pb then ''SAME'' else ''DIFFERENT'')
                         @ [CHR 0x0A]) m
      | _ \<Rightarrow> m)"

definition journalist_results :: "(nat \<times> nat \<times> nat) list \<Rightarrow> Moderator \<Rightarrow> Moderator" where
  "journalist_results qs m = foldl journalist_result m qs"

definition eavesdropper_line ::
  "int list \<Rightarrow> nat option \<Rightarrow> nat option \<Rightarrow> nat option \<Rightarrow> nat \<Rightarrow> string" where
  "eavesdropper_line counts shot heal maniac tgt =
     (let (s1, any1) =
            (if tgt < length counts \<and> counts ! tgt > 0
             then ('' mafia('' @ to_string_int (counts ! tgt) @ '')'', True) else ([], False));
          (s2, any2) =
            (if shot = Some tgt
             then (s1 @ (if any1 then '','' else []) @ '' det-shot'', True) else (s1, any1));
          (s3, any3) =
            (if heal = Some tgt
             then (s2 @ (if any2 then '','' else []) @ '' doc-heal'', True) else (s2, any2));
          (s4, any4) =
            (if maniac = Some tgt
             then (s3 @ (if any3 then '','' else []) @ '' maniac'', True) else (s3, any3))
      in (if \<not> any4 then s4 @ '' none'' else s4) @ [CHR 0x0A])"

definition eavesdropper_result ::
  "int list \<Rightarrow> nat option \<Rightarrow> nat option \<Rightarrow> nat option \<Rightarrow> Moderator \<Rightarrow> nat \<times> nat \<Rightarrow>
   Moderator" where
  "eavesdropper_result counts shot heal maniac m r =
     (let (eid, tgt) = r; ps = players m in
      if tgt \<ge> length ps then m
      else case ps ! tgt of
        None \<Rightarrow> m
      | Some pt \<Rightarrow>
          round_append (''NIGHT: eavesdropper-result for '' @ player_tag pt tgt
                         @ '' by '' @ player_tag (deref ps eid) eid @ '' ->''
                         @ eavesdropper_line counts shot heal maniac tgt) m)"

definition eavesdropper_results ::
  "(nat \<times> nat) list \<Rightarrow> int list \<Rightarrow> nat option \<Rightarrow> nat option \<Rightarrow> nat option \<Rightarrow>
   Moderator \<Rightarrow> Moderator" where
  "eavesdropper_results reqs counts shot heal maniac m =
     foldl (eavesdropper_result counts shot heal maniac) m reqs"

definition night_deaths :: "bool list \<Rightarrow> nat list" where
  "night_deaths to_kill = filter (\<lambda>i. to_kill ! i) [0..<length to_kill]"

definition apply_death :: "Moderator \<Rightarrow> nat \<Rightarrow> Moderator" where
  "apply_death m i =
     (let p = deref (players m) i;
          m1 = (if is_open m
                then root_info (''Night (open): #'' @ to_string (i + 1) @ '' died (''
                                 @ role_ru (role p) @ '')'') m
                else m);
          m2 = mark_died i m1;
          m3 = round_append (''NIGHT: death '' @ player_tag p i @ '' ('' @ role_ru (role p)
                              @ '')'' @ [CHR 0x0A]) m2
      in kill_player i m3)"

definition deaths_console :: "nat list \<Rightarrow> Moderator \<Rightarrow> Moderator" where
  "deaths_console deaths m =
     (if deaths = [] then root_info ''Night: no deaths'' m
      else if \<not> is_open m
      then root_info
             (foldl (\<lambda>s i. s @ '' #'' @ to_string (i + 1) @ '' (''
                              @ team_ru (team (deref (players m) i)) @ '')'')
                ''Night: deaths:'' deaths) m
      else m)"

definition resolve_night :: "Moderator \<Rightarrow> nat list \<times> Moderator" where
  "resolve_night m =
     (let ps = players m; n = length ps;
          m1 = (if length (mafia_vote_counts m) \<noteq> n
                then m\<lparr>mafia_vote_counts := replicate n 0\<rparr> else m);
          mafia_counts_copy = mafia_vote_counts m1;
          detective_shot_copy = detective_shot m1;
          doctor_heal_copy = doctor_heal m1;
          maniac_target_copy = maniac_target m1;
          journalist_copy = journalist_queries m1;
          eavesdrop_copy = eavesdrop_requests m1;
          m2 = (if is_full_logs m1
                then (if is_open m1 then root_info (mafia_tally_console ps mafia_counts_copy) m1
                      else root_info ''Night: actions recorded (closed)'' m1)
                else m1);
          m3 = round_append (mafia_tally_line ps mafia_counts_copy) m2;
          (mafia_target, g) = select_mafia_target ps mafia_counts_copy (rng m3);
          m4 = m3\<lparr>rng := g\<rparr>;
          (to_kill, m5) =
             apply_heal doctor_heal_copy
               (mark_shot maniac_target_copy ''maniac''
                 (mark_shot detective_shot_copy ''detective''
                   (mark_shot mafia_target ''mafia'' (replicate n False, m4))));
          m6 = journalist_results journalist_copy m5;
          m7 = eavesdropper_results eavesdrop_copy mafia_counts_copy detective_shot_copy
                 doctor_heal_copy maniac_target_copy m6;
          deaths = night_deaths to_kill;
          m8 = foldl apply_death m7 deaths;
          m9 = deaths_console deaths (clear_night_intents m8)
      in (deaths, round_write_file True m9))"

section \<open>The summary file (core/moderator.cpp)\<close>








section \<open>Engine construction (core/game_engine.cpp, core/game_engine_coro.cpp)\<close>

text \<open>
  \<^verbatim>\<open>team_of\<close>, and the team each role class passes to \<^verbatim>\<open>BasePlayer\<close>: the same map.
\<close>

fun team_of :: "Role \<Rightarrow> Team" where
  "team_of Role_Citizen = Team_Town"
| "team_of Role_Detective = Team_Town"
| "team_of Role_Doctor = Team_Town"
| "team_of Role_Executioner = Team_Town"
| "team_of Role_Journalist = Team_Town"
| "team_of Role_Eavesdropper = Team_Town"
| "team_of Role_Mafia = Team_Mafia"
| "team_of Role_Maniac = Team_Maniac"

text \<open>
  \<^verbatim>\<open>Rng::shuffle\<close> is \<^verbatim>\<open>std::shuffle\<close>, whose permutation the standard leaves to the
  implementation. It is modelled as the usual exchange shuffle driven by the generator:
  from the last position down, each position is exchanged with a position drawn at or
  below it.
\<close>

fun shuffle_from :: "nat \<Rightarrow> 'a list \<Rightarrow> rng \<Rightarrow> 'a list \<times> rng" where
  "shuffle_from 0 xs g = (xs, g)"
| "shuffle_from (Suc i) xs g =
     (let (j, g') = uniform_int 0 (int (Suc i)) g
      in shuffle_from i (xs[Suc i := xs ! nat j, nat j := xs ! Suc i]) g')"

definition shuffle :: "'a list \<Rightarrow> rng \<Rightarrow> 'a list \<times> rng" where
  "shuffle xs g = shuffle_from (length xs - 1) xs g"

text \<open>
  What the engine takes from outside: the draws of a \<^verbatim>\<open>std::mt19937_64\<close> seeded with a
  given number, and the generator a seat gets when its seed comes from
  \<^verbatim>\<open>std::random_device\<close> (global seed 0, or a mixed seed that is 0).
\<close>

record engine_env =
  seeded :: "nat \<Rightarrow> rng"
  from_device :: "nat \<Rightarrow> rng"

text \<open>
  \<^verbatim>\<open>cfg_.seed ^ (0x9E3779B9u * static_cast<unsigned>(i + 1))\<close> on 32-bit \<^verbatim>\<open>unsigned\<close>.
\<close>

definition player_seed :: "nat \<Rightarrow> nat \<Rightarrow> 32 word" where
  "player_seed s i = word_of_nat s XOR (0x9E3779B9 * word_of_nat (i + 1))"

definition player_rng :: "engine_env \<Rightarrow> GameConfig \<Rightarrow> nat \<Rightarrow> rng" where
  "player_rng env c i =
     (if seed c = 0 then from_device env i
      else (let s = unat (player_seed (seed c) i)
            in if s = 0 then from_device env i else seeded env s))"

text \<open>An exception that leaves the engine: \<^verbatim>\<open>std::runtime_error\<close> with its message.\<close>

datatype exn = Runtime_error string

text \<open>
  The role counts and the bag, up to the throw: \<open>Inl\<close> is the exception with the
  message of the engine that throws it. The counts are \<^verbatim>\<open>std::size_t\<close>; none of the
  sums can wrap, since the mafia count is at most a third of \<^verbatim>\<open>n_players\<close>.
\<close>

definition mafia_count :: "GameConfig \<Rightarrow> nat" where
  "mafia_count c = max 1 (n_players c div max 3 (k_mafia_divisor c))"

definition fixed_count :: "GameConfig \<Rightarrow> nat" where
  "fixed_count c =
     mafia_count c + 1 + 1 + 1 + min (executioner_count c) 1 + min (journalist_count c) 1
       + min (eavesdropper_count c) 1"

definition role_bag :: "string \<Rightarrow> GameConfig \<Rightarrow> exn + Role list" where
  "role_bag who c =
     (let total = n_players c;
          mafia_cnt = mafia_count c;
          detective_cnt = 1; doctor_cnt = 1; maniac_cnt = 1;
          executioner_cnt = min (executioner_count c) 1;
          journalist_cnt = min (journalist_count c) 1;
          eavesdropper_cnt = min (eavesdropper_count c) 1;
          fixed = mafia_cnt + detective_cnt + doctor_cnt + maniac_cnt
                    + executioner_cnt + journalist_cnt + eavesdropper_cnt
      in if fixed > total
         then Inl (Runtime_error (who @ '': not enough slots for mandatory + extra roles''))
         else Inr (replicate mafia_cnt Role_Mafia @ replicate detective_cnt Role_Detective
                   @ replicate doctor_cnt Role_Doctor @ replicate maniac_cnt Role_Maniac
                   @ replicate executioner_cnt Role_Executioner
                   @ replicate journalist_cnt Role_Journalist
                   @ replicate eavesdropper_cnt Role_Eavesdropper
                   @ replicate (total - fixed) Role_Citizen))"

text \<open>
  One seat: the interactive player is a \<^verbatim>\<open>roles::Human\<close> named \<^verbatim>\<open>You\<close> with the role
  drawn for the seat; any other seat is an object of the class of its role.
\<close>

definition build_player :: "engine_env \<Rightarrow> GameConfig \<Rightarrow> nat option \<Rightarrow> Role list \<Rightarrow> nat \<Rightarrow> player" where
  "build_player env c human_idx bag i =
     \<lparr>pid = i,
      name = (if human_idx = Some i then ''You'' else ''Player_'' @ to_string (i + 1)),
      role = bag ! i, team = team_of (bag ! i), alive = True,
      is_human = (human_idx = Some i), prng = player_rng env c i\<rparr>"

text \<open>
  \<^verbatim>\<open>GameEngine::setup_players_\<close> and \<^verbatim>\<open>GameEngineCoro::init_players_\<close>: the same body but
  for the text of the exception. The result is the exception, or the player vector and
  the engine's generator after the shuffle and the draw of the human seat.
\<close>

definition populate ::
  "string \<Rightarrow> engine_env \<Rightarrow> GameConfig \<Rightarrow> rng \<Rightarrow> exn + (players \<times> rng)" where
  "populate who env c g =
     (case role_bag who c of
        Inl e \<Rightarrow> Inl e
      | Inr bag0 \<Rightarrow>
          (let (bag, g1) = shuffle bag0 g;
               (human_idx, g2) =
                  (if human c \<and> bag \<noteq> []
                   then (let (k, g') = uniform_int 0 (int (length bag) - 1) g1
                         in (Some (nat k), g'))
                   else (None, g1))
           in Inr (map (\<lambda>i. Some (build_player env c human_idx bag i)) [0..<length bag], g2)))"

definition setup_players :: "engine_env \<Rightarrow> GameConfig \<Rightarrow> rng \<Rightarrow> exn + (players \<times> rng)" where
  "setup_players = populate ''GameEngine::setup_players_''"

definition init_players :: "engine_env \<Rightarrow> GameConfig \<Rightarrow> rng \<Rightarrow> exn + (players \<times> rng)" where
  "init_players = populate ''GameEngineCoro::init_players_''"

text \<open>
  The start of \<^verbatim>\<open>GameEngine::run\<close> and of \<^verbatim>\<open>GameEngineCoro::run\<close>: the players are
  built first, and an exception thrown there leaves \<^verbatim>\<open>run\<close> before a barrier, a thread,
  a coroutine or a round exists. \<open>Inr\<close> is the table the first round starts from; the
  threaded engine throws on an empty table, the cooperative one returns at once.
\<close>

datatype started = Playing players rng | Returned_at_once

definition threaded_run_start :: "engine_env \<Rightarrow> GameConfig \<Rightarrow> rng \<Rightarrow> exn + started" where
  "threaded_run_start env c g =
     (case setup_players env c g of
        Inl e \<Rightarrow> Inl e
      | Inr (ps, g') \<Rightarrow>
          if length ps = 0 then Inl (Runtime_error ''GameEngine::run: no players'')
          else Inr (Playing ps g'))"

definition coro_run_start :: "engine_env \<Rightarrow> GameConfig \<Rightarrow> rng \<Rightarrow> exn + started" where
  "coro_run_start env c g =
     (case init_players env c g of
        Inl e \<Rightarrow> Inl e
      | Inr (ps, g') \<Rightarrow> if length ps = 0 then Inr Returned_at_once else Inr (Playing ps g'))"

text \<open>The number of seats of a player vector that hold a given role.\<close>

definition role_census :: "players \<Rightarrow> Role \<Rightarrow> nat" where
  "role_census ps r = length (filter (\<lambda>s. case s of None \<Rightarrow> False | Some p \<Rightarrow> role p = r) ps)"

section \<open>The Doctor's night hook (roles/doctor.cpp, two variants in the repository)\<close>





section \<open>The round loop, as the Moderator sees it (core/game_engine.cpp, core/game_engine_coro.cpp)\<close>

text \<open>
  What the agents do between two barriers reaches the Moderator as a sequence of
  submissions; the order in which the threads get the mutex is the order of the list.
\<close>

datatype intent =
    Day_vote nat nat
  | Mafia_vote nat nat
  | Detective_shot nat nat
  | Doctor_heal nat nat
  | Maniac_target nat nat
  | Journalist_compare nat nat nat
  | Eavesdropper_target nat nat
  | Log_info string

fun submit :: "Moderator \<Rightarrow> intent \<Rightarrow> Moderator" where
  "submit m (Day_vote v t) = submit_day_vote v t m"
| "submit m (Mafia_vote v t) = mafia_vote_target v t m"
| "submit m (Detective_shot v t) = set_detective_shot v t m"
| "submit m (Doctor_heal v t) = set_doctor_heal v t m"
| "submit m (Maniac_target v t) = set_maniac_target v t m"
| "submit m (Journalist_compare j a b) = set_journalist_compare j a b m"
| "submit m (Eavesdropper_target e t) = set_eavesdropper_target e t m"
| "submit m (Log_info s) = log_info s m"






section \<open>The cooperative barrier (coro/scheduler.hpp)\<close>

text \<open>
  \<^verbatim>\<open>coro::PhaseBarrier\<close> lives in one thread with the coroutines that use it. The state
  is the barrier's own fields (\<^verbatim>\<open>expected_\<close>, \<^verbatim>\<open>arrived_\<close>, both \<^verbatim>\<open>std::size_t\<close>, and
  \<^verbatim>\<open>waiters_\<close>), which coroutine frames have run to their end (\<^verbatim>\<open>done()\<close>), and
  everything else the callback and the coroutines can reach. A handle is a coroutine
  frame or null. The callback \<^verbatim>\<open>on_complete_\<close> (a \<^verbatim>\<open>std::function\<close>, possibly empty) and
  what a coroutine does when it is resumed are any code at all, so they are arguments:
  functions on the whole state, which may well come back to the barrier.
\<close>

type_synonym handle = "nat option"

record 'e coro_world =
  expected :: "64 word"
  arrived :: "64 word"
  waiters :: "handle list"
  finished :: "nat \<Rightarrow> bool"
  outside :: 'e

text \<open>The body of the loop over the waiters: \<^verbatim>\<open>if (hh && !hh.done()) hh.resume()\<close>.\<close>

definition resume_handle ::
  "(nat \<Rightarrow> 'e coro_world \<Rightarrow> 'e coro_world) \<Rightarrow> 'e coro_world \<Rightarrow> handle \<Rightarrow> 'e coro_world" where
  "resume_handle resume s hh =
     (case hh of None \<Rightarrow> s | Some c \<Rightarrow> if finished s c then s else resume c s)"

text \<open>
  \<^verbatim>\<open>PhaseBarrier::on_arrive_\<close>. The loop runs over the local copy of the waiters taken
  after the callback has returned.
\<close>

definition on_arrive ::
  "('e coro_world \<Rightarrow> 'e coro_world) option \<Rightarrow> (nat \<Rightarrow> 'e coro_world \<Rightarrow> 'e coro_world) \<Rightarrow> handle
     \<Rightarrow> 'e coro_world \<Rightarrow> 'e coro_world" where
  "on_arrive on_complete resume h s =
     (let s1 = s\<lparr>waiters := waiters s @ [h]\<rparr>;
          s2 = s1\<lparr>arrived := arrived s1 + 1\<rparr>
      in if arrived s2 = expected s2
         then (let s3 = s2\<lparr>arrived := 0\<rparr>;
                   s4 = (case on_complete of None \<Rightarrow> s3 | Some f \<Rightarrow> f s3);
                   ws = waiters s4;
                   s5 = s4\<lparr>waiters := []\<rparr>
               in foldl (resume_handle resume) s5 ws)
         else s2)"

text \<open>
  \<^verbatim>\<open>co_await barrier.arrive()\<close> in the coroutine of frame \<open>c\<close>: the awaiter is never
  ready, so the coroutine is suspended and \<^verbatim>\<open>await_suspend\<close> hands its handle over.
\<close>

definition arrive ::
  "('e coro_world \<Rightarrow> 'e coro_world) option \<Rightarrow> (nat \<Rightarrow> 'e coro_world \<Rightarrow> 'e coro_world) \<Rightarrow> nat
     \<Rightarrow> 'e coro_world \<Rightarrow> 'e coro_world" where
  "arrive on_complete resume c s = on_arrive on_complete resume (Some c) s"

section \<open>Specification-side notions\<close>

text \<open>
  Stated from the specification's words, to compare the code with: an executioner that
  the Moderator consults on a tie (alive, role Executioner, an agent of class
  \<^verbatim>\<open>roles::Executioner\<close>); one of those whose decision is a member of the leaders; and
  the decision of the first such executioner in id order.
\<close>

definition consulted :: "players \<Rightarrow> nat \<Rightarrow> bool" where
  "consulted ps i =
     (case ps ! i of
        None \<Rightarrow> False
      | Some p \<Rightarrow> alive p \<and> role p = Role_Executioner \<and> \<not> is_human p)"

definition valid_choice :: "players \<Rightarrow> nat list \<Rightarrow> nat \<Rightarrow> bool" where
  "valid_choice ps leaders i =
     (consulted ps i \<and>
      (case fst (decide_execution (deref ps i) leaders) of
         None \<Rightarrow> False
       | Some v \<Rightarrow> v \<in> set leaders))"

definition first_valid_choice :: "players \<Rightarrow> nat list \<Rightarrow> nat list \<Rightarrow> nat option" where
  "first_valid_choice ps leaders is =
     (case filter (valid_choice ps leaders) is of
        [] \<Rightarrow> None
      | i # _ \<Rightarrow> fst (decide_execution (deref ps i) leaders))"

text \<open>The alive flags of a player vector, slot by slot.\<close>

definition alive_flags :: "players \<Rightarrow> bool option list" where
  "alive_flags ps = map (map_option alive) ps"

text \<open>
  The final ballots of a day as \<open>resolve_day_lynch\<close> reads them, and the players that
  lead its tally.
\<close>

definition final_votes :: "Moderator \<Rightarrow> nat option list" where
  "final_votes m =
     (if length (day_votes m) \<noteq> length (players m)
      then resize (day_votes m) (length (players m)) None else day_votes m)"

definition day_leaders :: "Moderator \<Rightarrow> nat list" where
  "day_leaders m =
     (let tally = day_tally (players m) (final_votes m)
      in vote_leaders tally (max_count tally))"

text \<open>
  The role census the specification asks of a freshly built table of \<open>n_players\<close> seats.
\<close>

definition census_ok :: "GameConfig \<Rightarrow> players \<Rightarrow> bool" where
  "census_ok c ps =
     (length ps = n_players c \<and> None \<notin> set ps \<and>
      role_census ps Role_Mafia = max 1 (n_players c div max 3 (k_mafia_divisor c)) \<and>
      role_census ps Role_Detective = 1 \<and>
      role_census ps Role_Doctor = 1 \<and>
      role_census ps Role_Maniac = 1 \<and>
      role_census ps Role_Executioner = min (executioner_count c) 1 \<and>
      role_census ps Role_Journalist = min (journalist_count c) 1 \<and>
      role_census ps Role_Eavesdropper = min (eavesdropper_count c) 1 \<and>
      role_census ps Role_Citizen =
        n_players c - (role_census ps Role_Mafia + 3 + role_census ps Role_Executioner
                        + role_census ps Role_Journalist + role_census ps Role_Eavesdropper))"





text \<open>Everything the writing of round files reads or changes.\<close>

definition file_state ::
  "Moderator \<Rightarrow> GameConfig \<times> int \<times> bool \<times> (string \<times> bool) list \<times> (string \<times> string) list
     \<times> (nat \<Rightarrow> string \<Rightarrow> bool)" where
  "file_state m = (cfg m, round_index m, round_written m, opened m, files m, opens m)"





text \<open>
  The barrier in the middle of a cycle: as many parties wait as the counter says, fewer
  than expected. The state the callback is given on the last arrival of a cycle: the
  counter is back to zero and every party of the cycle, the arriving one last, still
  waits. To resume coroutines in order.
\<close>

definition in_cycle :: "'e coro_world \<Rightarrow> bool" where
  "in_cycle s =
     (arrived s = word_of_nat (length (waiters s)) \<and> length (waiters s) < unat (expected s))"

definition all_arrived :: "handle \<Rightarrow> 'e coro_world \<Rightarrow> 'e coro_world" where
  "all_arrived h s = s\<lparr>waiters := waiters s @ [h], arrived := 0\<rparr>"

definition resume_in_order ::
  "(nat \<Rightarrow> 'e coro_world \<Rightarrow> 'e coro_world) \<Rightarrow> nat list \<Rightarrow> 'e coro_world \<Rightarrow> 'e coro_world" where
  "resume_in_order resume cs s = foldl (\<lambda>s c. resume c s) s cs"

text \<open>
  No coroutine of the list has run to its end when its turn to be resumed comes.
\<close>

definition unfinished_in_turn ::
  "(nat \<Rightarrow> 'e coro_world \<Rightarrow> 'e coro_world) \<Rightarrow> nat list \<Rightarrow> 'e coro_world \<Rightarrow> bool" where
  "unfinished_in_turn resume cs s =
     list_all (\<lambda>k. \<not> finished (resume_in_order resume (take k cs) s) (cs ! k))
       [0..<length cs]"

section \<open>Concrete states\<close>

text \<open>
  A five-seat table used to run the operations on: seat 0 Mafia, 1 Detective, 2 Doctor,
  3 Maniac, 4 Citizen, everybody alive, closed announcements, short console log, tie
  policy None, and a file system on which every open succeeds.
\<close>

definition mk_player :: "nat \<Rightarrow> Role \<Rightarrow> Team \<Rightarrow> player" where
  "mk_player i r t =
     \<lparr>pid = i, name = ''Player_'' @ to_string (i + 1), role = r, team = t, alive = True,
      is_human = False, prng = []\<rparr>"

definition table5 :: players where
  "table5 =
     [Some (mk_player 0 Role_Mafia Team_Mafia), Some (mk_player 1 Role_Detective Team_Town),
      Some (mk_player 2 Role_Doctor Team_Town), Some (mk_player 3 Role_Maniac Team_Maniac),
      Some (mk_player 4 Role_Citizen Team_Town)]"

definition table5_mafia_dead :: players where
  "table5_mafia_dead = table5[0 := Some ((mk_player 0 Role_Mafia Team_Mafia)\<lparr>alive := False\<rparr>)]"

text \<open>The Moderator as its constructor leaves it, over a given player vector.\<close>

definition new_moderator :: "GameConfig \<Rightarrow> players \<Rightarrow> rng \<Rightarrow> (nat \<Rightarrow> string \<Rightarrow> bool) \<Rightarrow> Moderator" where
  "new_moderator c ps g fs =
     (let n = length ps in
      \<lparr>cfg = c, players = ps, rng = g,
       day_votes = replicate n None,
       mafia_vote_counts = replicate n 0,
       detective_shot = None, doctor_heal = None, maniac_target = None,
       journalist_queries = [], eavesdrop_requests = [],
       stats_votes_given_day = replicate n 0,
       stats_votes_received_day = replicate n 0,
       stats_mafia_votes = replicate n 0,
       stats_detective_shots = replicate n 0,
       stats_doctor_heals = replicate n 0,
       stats_maniac_targets = replicate n 0,
       stats_died_round = replicate n 0,
       day_voted_flag = replicate n False,
       round_index = 0, round_written = False, round_log = [],
       console = [], files = [], opened = [], opens = fs\<rparr>)"

definition table5_moderator :: Moderator where
  "table5_moderator = new_moderator default_config table5 [] (\<lambda>_ _. True)"

text \<open>
  The buffers of a night on which the mafia, the detective and the maniac all aim at seat
  4 and the doctor heals seat 4; and of a night on which only the detective shoots (at
  seat 0) and the doctor heals seat 4, whom nobody attacked.
\<close>

definition night_all_on_4 :: Moderator where
  "night_all_on_4 =
     table5_moderator\<lparr>mafia_vote_counts := [0, 0, 0, 0, 1], detective_shot := Some 4,
       maniac_target := Some 4, doctor_heal := Some 4\<rparr>"

definition night_heal_unattacked :: Moderator where
  "night_heal_unattacked = table5_moderator\<lparr>detective_shot := Some 0, doctor_heal := Some 4\<rparr>"

text \<open>
  A four-seat table at the end of a day: seats 0 and 1 (Citizens) have voted for each
  other, seat 2 holds the role Executioner and seat 3 is Mafia; nobody else voted, so
  seats 0 and 1 lead with one vote each and the tie policy is None. In \<open>tie_human\<close> seat
  2 is the interactive \<^verbatim>\<open>roles::Human\<close> object; in \<open>tie_bot\<close> it is a \<^verbatim>\<open>roles::Executioner\<close>
  whose generator will draw 1 (the coin: execute) and then 1 (the second leader).
\<close>

definition table4 :: "bool \<Rightarrow> players" where
  "table4 h =
     [Some (mk_player 0 Role_Citizen Team_Town), Some (mk_player 1 Role_Citizen Team_Town),
      Some ((mk_player 2 Role_Executioner Team_Town)\<lparr>is_human := h, prng := [1, 1]\<rparr>),
      Some (mk_player 3 Role_Mafia Team_Mafia)]"

definition tie_human :: Moderator where
  "tie_human =
     (new_moderator default_config (table4 True) [] (\<lambda>_ _. True))
       \<lparr>day_votes := [Some 1, Some 0, None, None]\<rparr>"

definition tie_bot :: Moderator where
  "tie_bot =
     (new_moderator default_config (table4 False) [] (\<lambda>_ _. True))
       \<lparr>day_votes := [Some 1, Some 0, None, None]\<rparr>"

text \<open>
  An environment whose generators are all exhausted tapes, and a configuration of six
  seats with the default extra roles: two Mafia and six other fixed roles do not fit.
\<close>

definition quiet_env :: engine_env where
  "quiet_env = \<lparr>seeded = (\<lambda>_. []), from_device = (\<lambda>_. [])\<rparr>"

definition six_seats :: GameConfig where
  "six_seats = default_config\<lparr>n_players := 6\<rparr>"





text \<open>
  A barrier for three parties and one for two, nobody waiting, where the world outside is
  a log: the callback notes the counter and the number of waiting parties it sees, a
  resumed coroutine notes its frame. A coroutine of the second kind, when resumed,
  notes its frame and awaits the same barrier once more.
\<close>

datatype barrier_event = Completed nat nat | Resumed nat

definition barrier_of :: "nat \<Rightarrow> barrier_event list coro_world" where
  "barrier_of n =
     \<lparr>expected = word_of_nat n, arrived = 0, waiters = [], finished = (\<lambda>_. False),
      outside = []\<rparr>"

definition note_complete :: "barrier_event list coro_world \<Rightarrow> barrier_event list coro_world" where
  "note_complete s =
     s\<lparr>outside := outside s @ [Completed (unat (arrived s)) (length (waiters s))]\<rparr>"

definition note_resume ::
  "nat \<Rightarrow> barrier_event list coro_world \<Rightarrow> barrier_event list coro_world" where
  "note_resume c s = s\<lparr>outside := outside s @ [Resumed c]\<rparr>"

definition await_again ::
  "nat \<Rightarrow> barrier_event list coro_world \<Rightarrow> barrier_event list coro_world" where
  "await_again c s = arrive (Some note_complete) note_resume c (note_resume c s)"

section \<open>Frame lemmas: what each step leaves alone\<close>

lemma round_log_root_info [simp]: "round_log (root_info s m) = round_log m"
  by (simp add: root_info_def)

lemma players_root_info [simp]: "players (root_info s m) = players m"
  by (simp add: root_info_def)

lemma round_log_round_append [simp]: "round_log (round_append s m) = round_log m @ [s]"
  by (simp add: round_append_def)

lemma players_round_append [simp]: "players (round_append s m) = players m"
  by (simp add: round_append_def)

lemma players_mark_died [simp]: "players (mark_died v m) = players m"
  by (simp add: mark_died_def)

lemma round_log_mark_died [simp]: "round_log (mark_died v m) = round_log m"
  by (simp add: mark_died_def)

lemma round_log_kill_player [simp]: "round_log (kill_player i m) = round_log m"
  by (simp add: kill_player_def Let_def split: option.splits)

lemma length_players_kill_player [simp]: "length (players (kill_player i m)) = length (players m)"
  by (simp add: kill_player_def Let_def split: option.splits)

lemma players_kill_player_other: "j \<noteq> i \<Longrightarrow> players (kill_player i m) ! j = players m ! j"
  by (simp add: kill_player_def Let_def split: option.splits)

lemma mark_shot_players [simp]: "players (snd (mark_shot t src km)) = players (snd km)"
  by (simp add: mark_shot_def Let_def split: option.splits prod.splits)

lemma mark_shot_length [simp]: "length (fst (mark_shot t src km)) = length (fst km)"
  by (simp add: mark_shot_def Let_def split: option.splits prod.splits)

lemma apply_heal_players [simp]: "players (snd (apply_heal h km)) = players (snd km)"
  by (simp add: apply_heal_def Let_def split: option.splits prod.splits)

lemma apply_heal_length [simp]: "length (fst (apply_heal h km)) = length (fst km)"
  by (simp add: apply_heal_def Let_def split: option.splits prod.splits)

lemma apply_heal_unmarks:
  "is_alive (players (snd km)) h \<Longrightarrow> h < length (fst km) \<Longrightarrow> \<not> fst (apply_heal (Some h) km) ! h"
  by (cases km) (auto simp: apply_heal_def is_alive_def slot_alive_def deref_def Let_def split: option.splits)

lemma apply_heal_line:
  "is_alive (players (snd km)) h \<Longrightarrow>
   (''NIGHT: heal-cancels '' @ player_tag (deref (players (snd km)) h) h @ [CHR 0x0A])
     \<in> set (round_log (snd (apply_heal (Some h) km)))"
  by (cases km) (auto simp: apply_heal_def is_alive_def slot_alive_def deref_def Let_def split: option.splits)

lemma foldl_log_mono:
  assumes "\<And>m x. set (round_log m) \<subseteq> set (round_log (f m x))"
  shows "set (round_log m) \<subseteq> set (round_log (foldl f m xs))"
proof (induction xs arbitrary: m)
  case Nil
  show ?case by simp
next
  case (Cons x xs)
  have "set (round_log m) \<subseteq> set (round_log (f m x))" by (rule assms)
  also have "\<dots> \<subseteq> set (round_log (foldl f (f m x) xs))" by (rule Cons.IH)
  finally show ?case by simp
qed

lemma foldl_players_same:
  assumes "\<And>m x. players (f m x) = players m"
  shows "players (foldl f m xs) = players m"
  by (induction xs arbitrary: m) (simp_all add: assms)

lemma journalist_result_log: "set (round_log m) \<subseteq> set (round_log (journalist_result m q))"
  by (auto simp: journalist_result_def Let_def split: option.splits prod.splits)

lemma journalist_result_players [simp]: "players (journalist_result m q) = players m"
  by (auto simp: journalist_result_def Let_def split: option.splits prod.splits)

lemma eavesdropper_result_log:
  "set (round_log m) \<subseteq> set (round_log (eavesdropper_result c s h t m r))"
  by (auto simp: eavesdropper_result_def Let_def split: option.splits prod.splits)

lemma eavesdropper_result_players [simp]:
  "players (eavesdropper_result c s h t m r) = players m"
  by (auto simp: eavesdropper_result_def Let_def split: option.splits prod.splits)

lemma journalist_results_log: "set (round_log m) \<subseteq> set (round_log (journalist_results qs m))"
  unfolding journalist_results_def by (rule foldl_log_mono) (rule journalist_result_log)

lemma eavesdropper_results_log:
  "set (round_log m) \<subseteq> set (round_log (eavesdropper_results rs c s h t m))"
  unfolding eavesdropper_results_def by (rule foldl_log_mono) (rule eavesdropper_result_log)

lemma journalist_results_players [simp]: "players (journalist_results qs m) = players m"
  unfolding journalist_results_def by (rule foldl_players_same) simp

lemma eavesdropper_results_players [simp]:
  "players (eavesdropper_results rs c s h t m) = players m"
  unfolding eavesdropper_results_def by (rule foldl_players_same) simp

lemma apply_death_log: "set (round_log m) \<subseteq> set (round_log (apply_death m i))"
  by (auto simp: apply_death_def Let_def)

lemma apply_death_other: "j \<noteq> i \<Longrightarrow> players (apply_death m i) ! j = players m ! j"
  by (simp add: apply_death_def Let_def players_kill_player_other)

lemma apply_death_length [simp]: "length (players (apply_death m i)) = length (players m)"
  by (simp add: apply_death_def Let_def)

lemma foldl_apply_death_log: "set (round_log m) \<subseteq> set (round_log (foldl apply_death m ds))"
  by (rule foldl_log_mono) (rule apply_death_log)

lemma foldl_apply_death_other:
  "j \<notin> set ds \<Longrightarrow> players (foldl apply_death m ds) ! j = players m ! j"
  by (induction ds arbitrary: m) (auto simp: apply_death_other)

lemma foldl_apply_death_length [simp]:
  "length (players (foldl apply_death m ds)) = length (players m)"
  by (induction ds arbitrary: m) auto

lemma round_log_clear_night_intents [simp]: "round_log (clear_night_intents m) = round_log m"
  by (simp add: clear_night_intents_def)

lemma players_clear_night_intents [simp]: "players (clear_night_intents m) = players m"
  by (simp add: clear_night_intents_def)

lemma round_log_deaths_console [simp]: "round_log (deaths_console ds m) = round_log m"
  by (simp add: deaths_console_def)

lemma players_deaths_console [simp]: "players (deaths_console ds m) = players m"
  by (simp add: deaths_console_def)

lemma round_log_round_write_file [simp]: "round_log (round_write_file b m) = round_log m"
  by (simp add: round_write_file_def root_error_def Let_def)

lemma players_round_write_file [simp]: "players (round_write_file b m) = players m"
  by (simp add: round_write_file_def root_error_def Let_def)

lemma length_resize [simp]: "length (resize xs n d) = n"
  by (simp add: resize_def)

section \<open>Termination check and investigation\<close>

text \<open>
  The players of a team that are alive, as a set of ids: the set the counting loops
  count.
\<close>

definition alive_on_team :: "players \<Rightarrow> Team \<Rightarrow> nat set" where
  "alive_on_team ps t =
     {i. i < length ps \<and> (\<exists>p. ps ! i = Some p \<and> alive p \<and> team p = t)}"

lemma alive_mafia_count_filter:
  "alive_mafia_count ps =
     length (filter (\<lambda>s. \<exists>p. s = Some p \<and> alive p \<and> team p = Team_Mafia) ps)"
  by (induction ps) (auto split: option.splits)

lemma alive_town_count_filter:
  "alive_town_count ps =
     length (filter (\<lambda>s. \<exists>p. s = Some p \<and> alive p \<and> team p = Team_Town) ps)"
  by (induction ps) (auto split: option.splits)

lemma alive_maniac_count_filter:
  "alive_maniac_count ps =
     length (filter (\<lambda>s. \<exists>p. s = Some p \<and> alive p \<and> team p = Team_Maniac) ps)"
  by (induction ps) (auto split: option.splits)

lemma alive_mafia_count_card: "alive_mafia_count ps = card (alive_on_team ps Team_Mafia)"
  by (simp add: alive_mafia_count_filter length_filter_conv_card alive_on_team_def)

lemma alive_town_count_card: "alive_town_count ps = card (alive_on_team ps Team_Town)"
  by (simp add: alive_town_count_filter length_filter_conv_card alive_on_team_def)

lemma alive_maniac_count_card: "alive_maniac_count ps = card (alive_on_team ps Team_Maniac)"
  by (simp add: alive_maniac_count_filter length_filter_conv_card alive_on_team_def)

text \<open>
  C1. For every player vector, \<open>evaluate_winner\<close> returns, in this priority order: Town
  when no Mafia-team player and no Maniac-team player is alive; Maniac when no Mafia-team
  player is alive and exactly one Maniac-team and exactly one Town-team player are;
  Mafia when the number of alive Mafia-team players is positive and at least the number
  of alive Town-team plus alive Maniac-team players; None otherwise. The numbers are the
  sizes of the sets of alive players of each team.
\<close>

theorem evaluate_winner_priority:
  "evaluate_winner ps =
     (let alive_maf = card (alive_on_team ps Team_Mafia);
          alive_man = card (alive_on_team ps Team_Maniac);
          alive_town = card (alive_on_team ps Team_Town)
      in if alive_maf = 0 \<and> alive_man = 0 then Winner_Town
         else if alive_maf = 0 \<and> alive_man = 1 \<and> alive_town = 1 then Winner_Maniac
         else if alive_maf > 0 \<and> alive_maf \<ge> alive_town + alive_man then Winner_Mafia
         else Winner_None)"
  unfolding evaluate_winner_def alive_mafia_count_card alive_town_count_card
    alive_maniac_count_card Let_def
  by (simp add: conj_commute conj_left_commute)

section \<open>Investigation\<close>

text \<open>
  C10. For every player vector and every pair of ids \<open>(d, t)\<close>, \<open>investigate d t\<close> is true
  if and only if \<open>t\<close> is in range, present, alive and on team Mafia. So an alive Maniac is
  reported as not Mafia, a dead Mafia member is reported as not Mafia, and the answer does
  not depend on the detective id.
\<close>

theorem investigate_alive_mafia_only:
  "(investigate ps d t \<longleftrightarrow>
      t < length ps \<and> (\<exists>p. ps ! t = Some p \<and> alive p \<and> team p = Team_Mafia)) \<and>
   (t < length ps \<and> ps ! t = Some p \<and> team p = Team_Maniac \<longrightarrow> \<not> investigate ps d t) \<and>
   (t < length ps \<and> ps ! t = Some p \<and> \<not> alive p \<longrightarrow> \<not> investigate ps d t) \<and>
   investigate ps d t = investigate ps d' t"
  by (auto simp: investigate_def is_mafia_def split: option.splits)

text \<open>
  The theorem on the five-seat table after the mafioso of seat 0 has died: asked by the
  detective (seat 1) or by anybody else, seat 0 (dead Mafia) and seat 3 (the alive Maniac)
  come back as not Mafia.
\<close>

theorem investigate_alive_mafia_only_witness:
  "3 < length table5_mafia_dead \<and>
   table5_mafia_dead ! 3 = Some (mk_player 3 Role_Maniac Team_Maniac) \<and>
   team (mk_player 3 Role_Maniac Team_Maniac) = Team_Maniac \<and>
   \<not> investigate table5_mafia_dead 1 3 \<and>
   table5_mafia_dead ! 0 = Some ((mk_player 0 Role_Mafia Team_Mafia)\<lparr>alive := False\<rparr>) \<and>
   \<not> investigate table5_mafia_dead 1 0 \<and>
   investigate table5 1 0 \<and> investigate table5 4 0"
proof -
  have l: "3 < length table5_mafia_dead" by (simp add: table5_mafia_dead_def table5_def)
  have s3: "table5_mafia_dead ! 3 = Some (mk_player 3 Role_Maniac Team_Maniac)"
    by (simp add: table5_mafia_dead_def table5_def)
  have t3: "team (mk_player 3 Role_Maniac Team_Maniac) = Team_Maniac"
    by (simp add: mk_player_def)
  have s0: "table5_mafia_dead ! 0 = Some ((mk_player 0 Role_Mafia Team_Mafia)\<lparr>alive := False\<rparr>)"
    by (simp add: table5_mafia_dead_def table5_def)
  have a0: "\<not> alive ((mk_player 0 Role_Mafia Team_Mafia)\<lparr>alive := False\<rparr>)" by simp
  have m0: "table5 ! 0 = Some (mk_player 0 Role_Mafia Team_Mafia)" by (simp add: table5_def)
  have am: "alive (mk_player 0 Role_Mafia Team_Mafia) \<and>
            team (mk_player 0 Role_Mafia Team_Mafia) = Team_Mafia" by (simp add: mk_player_def)
  note A = investigate_alive_mafia_only
    [of table5_mafia_dead 1 3 "mk_player 3 Role_Maniac Team_Maniac" 1]
  note B = investigate_alive_mafia_only
    [of table5_mafia_dead 1 0 "(mk_player 0 Role_Mafia Team_Mafia)\<lparr>alive := False\<rparr>" 1]
  note C = investigate_alive_mafia_only [of table5 1 0 "mk_player 0 Role_Mafia Team_Mafia" 4]
  have n3: "\<not> investigate table5_mafia_dead 1 3" using A l s3 t3 by blast
  have n0: "\<not> investigate table5_mafia_dead 1 0" using B l s0 a0 by simp
  have len: "0 < length table5" by (simp add: table5_def)
  have y0: "investigate table5 1 0" using C m0 am len by blast
  have y4: "investigate table5 4 0" using C y0 by blast
  show ?thesis by (intro conjI l s3 t3 n3 s0 n0 y0 y4)
qed

section \<open>Day resolution: a tie under the policy None\<close>

text \<open>
  The loop over the executioners returns the decision of the first consulted executioner,
  in id order, whose decision is one of the leaders, and changes nobody's alive flag.
\<close>

lemma alive_flags_prng:
  "ps ! i = Some p \<Longrightarrow> alive_flags (ps[i := Some (p\<lparr>prng := g\<rparr>)]) = alive_flags ps"
proof -
  assume a: "ps ! i = Some p"
  have "map_option alive (ps[i := Some (p\<lparr>prng := g\<rparr>)] ! k) = map_option alive (ps ! k)"
    if "k < length ps" for k
    using that a by (cases "k = i") simp_all
  then show ?thesis by (simp add: alive_flags_def list_eq_iff_nth_eq)
qed

lemma tie_loop_skip:
  "\<not> consulted (players m) i \<Longrightarrow> tie_loop (i # is) leaders m = tie_loop is leaders m"
  by (cases "players m ! i") (simp_all add: consulted_def)

lemma tie_loop_abstain:
  assumes "players m ! i = Some p" and "consulted (players m) i"
    and "decide_execution p leaders = (None, g)"
  shows "tie_loop (i # is) leaders m =
         tie_loop is leaders
           (round_append (''DAY: executioner abstains ('' @ player_tag p i @ '')'' @ [CHR 0x0A])
              (m\<lparr>players := (players m)[i := Some (p\<lparr>prng := g\<rparr>)]\<rparr>))"
  using assms by (simp add: consulted_def)

lemma tie_loop_invalid:
  assumes "players m ! i = Some p" and "consulted (players m) i"
    and "decide_execution p leaders = (Some v, g)" and "v \<notin> set leaders"
  shows "tie_loop (i # is) leaders m =
         tie_loop is leaders
           (round_append (''DAY: executioner invalid choice by '' @ player_tag p i @ [CHR 0x0A])
              (m\<lparr>players := (players m)[i := Some (p\<lparr>prng := g\<rparr>)]\<rparr>))"
  using assms by (simp add: consulted_def)

lemma tie_loop_choice:
  assumes "players m ! i = Some p" and "consulted (players m) i"
    and "decide_execution p leaders = (Some v, g)" and "v \<in> set leaders"
  shows "tie_loop (i # is) leaders m =
         (Some v,
          round_append (''DAY: executioner chooses ''
               @ player_tag (deref ((players m)[i := Some (p\<lparr>prng := g\<rparr>)]) v) v @ [CHR 0x0A])
            (m\<lparr>players := (players m)[i := Some (p\<lparr>prng := g\<rparr>)]\<rparr>))"
  using assms by (simp add: consulted_def)

lemma tie_loop_member:
  "fst (tie_loop is leaders m) = Some v \<Longrightarrow> v \<in> set leaders"
proof (induction "is" arbitrary: m)
  case Nil
  then show ?case by simp
next
  case (Cons i "is")
  show ?case
  proof (cases "consulted (players m) i")
    case False
    with Cons show ?thesis by (simp only: tie_loop_skip [OF False])
  next
    case True
    then obtain p where p: "players m ! i = Some p"
      by (auto simp: consulted_def split: option.splits)
    obtain dec g where dg: "decide_execution p leaders = (dec, g)"
      by (cases "decide_execution p leaders")
    show ?thesis
    proof (cases dec)
      case None
      show ?thesis
        using Cons.prems Cons.IH tie_loop_abstain [OF p True, of leaders g "is"] dg None
        by simp
    next
      case (Some w)
      show ?thesis
      proof (cases "w \<in> set leaders")
        case False
        show ?thesis
          using Cons.prems Cons.IH tie_loop_invalid [OF p True _ False, of g "is"] dg Some
          by simp
      next
        case yes: True
        show ?thesis
          using Cons.prems tie_loop_choice [OF p True _ yes, of g "is"] dg Some yes
          by simp
      qed
    qed
  qed
qed

lemma first_valid_choice_skip:
  "\<not> valid_choice ps leaders i \<Longrightarrow>
   first_valid_choice ps leaders (i # is) = first_valid_choice ps leaders is"
  by (simp add: first_valid_choice_def)

lemma first_valid_choice_hit:
  "valid_choice ps leaders i \<Longrightarrow>
   first_valid_choice ps leaders (i # is) = fst (decide_execution (deref ps i) leaders)"
  by (simp add: first_valid_choice_def)

lemma first_valid_choice_cong:
  assumes "\<And>j. j \<in> set is \<Longrightarrow> ps' ! j = ps ! j"
  shows "first_valid_choice ps' leaders is = first_valid_choice ps leaders is"
proof -
  have v: "valid_choice ps' leaders j = valid_choice ps leaders j" if "j \<in> set is" for j
    using assms [OF that] by (simp add: valid_choice_def consulted_def deref_def)
  have f: "filter (valid_choice ps' leaders) is = filter (valid_choice ps leaders) is"
    by (rule filter_cong) (simp_all add: v)
  show ?thesis
  proof (cases "filter (valid_choice ps leaders) is")
    case Nil
    then show ?thesis by (simp add: first_valid_choice_def f)
  next
    case (Cons j js)
    then have "j \<in> set (filter (valid_choice ps leaders) is)" by simp
    then have "j \<in> set is" by simp
    then have "deref ps' j = deref ps j" using assms by (simp add: deref_def)
    then show ?thesis using Cons by (simp add: first_valid_choice_def f)
  qed
qed

lemma tie_loop_spec:
  assumes "distinct is"
  shows "fst (tie_loop is leaders m) = first_valid_choice (players m) leaders is \<and>
         alive_flags (players (snd (tie_loop is leaders m))) = alive_flags (players m)"
  using assms
proof (induction "is" arbitrary: m)
  case Nil
  show ?case by (simp add: first_valid_choice_def)
next
  case (Cons i "is")
  from Cons.prems have d: "distinct is" and ni: "i \<notin> set is" by simp_all
  show ?case
  proof (cases "consulted (players m) i")
    case False
    then have nv: "\<not> valid_choice (players m) leaders i" by (simp add: valid_choice_def)
    show ?thesis
      using Cons.IH [OF d, of m] by (simp only: tie_loop_skip [OF False] first_valid_choice_skip [OF nv])
  next
    case True
    then obtain p where p: "players m ! i = Some p"
      by (auto simp: consulted_def split: option.splits)
    then have dp: "deref (players m) i = p" by (simp add: deref_def)
    obtain dec g where dg: "decide_execution p leaders = (dec, g)"
      by (cases "decide_execution p leaders")
    define ps1 where "ps1 = (players m)[i := Some (p\<lparr>prng := g\<rparr>)]"
    have fl: "alive_flags ps1 = alive_flags (players m)"
      unfolding ps1_def by (rule alive_flags_prng [OF p])
    have same: "ps1 ! j = players m ! j" if "j \<in> set is" for j
    proof -
      from that ni have "i \<noteq> j" by blast
      then show ?thesis by (simp add: ps1_def)
    qed
    have fv: "first_valid_choice ps1 leaders is = first_valid_choice (players m) leaders is"
      by (rule first_valid_choice_cong) (rule same)
    show ?thesis
    proof (cases dec)
      case None
      have nv: "\<not> valid_choice (players m) leaders i"
        by (simp add: valid_choice_def dp dg None)
      define m1 where "m1 = round_append (''DAY: executioner abstains ('' @ player_tag p i @ '')'' @ [CHR 0x0A])
              (m\<lparr>players := ps1\<rparr>)"
      have st: "tie_loop (i # is) leaders m = tie_loop is leaders m1"
        unfolding m1_def ps1_def using tie_loop_abstain [OF p True] dg None by simp
      have pl: "players m1 = ps1" by (simp add: m1_def round_append_def)
      show ?thesis
        using Cons.IH [OF d, of m1]
        by (simp only: st first_valid_choice_skip [OF nv] pl fv fl)
    next
      case (Some v)
      show ?thesis
      proof (cases "v \<in> set leaders")
        case False
        have nv: "\<not> valid_choice (players m) leaders i"
          by (simp add: valid_choice_def dp dg Some False)
        define m1 where "m1 = round_append (''DAY: executioner invalid choice by '' @ player_tag p i @ [CHR 0x0A])
              (m\<lparr>players := ps1\<rparr>)"
        have st: "tie_loop (i # is) leaders m = tie_loop is leaders m1"
          unfolding m1_def ps1_def using tie_loop_invalid [OF p True _ False] dg Some by simp
        have pl: "players m1 = ps1" by (simp add: m1_def round_append_def)
        show ?thesis
          using Cons.IH [OF d, of m1]
          by (simp only: st first_valid_choice_skip [OF nv] pl fv fl)
      next
        case vin: True
        have yv: "valid_choice (players m) leaders i"
          by (simp add: valid_choice_def True dp dg Some vin)
        have st: "tie_loop (i # is) leaders m =
           (Some v, round_append (''DAY: executioner chooses ''
               @ player_tag (deref ps1 v) v @ [CHR 0x0A]) (m\<lparr>players := ps1\<rparr>))"
          unfolding ps1_def using tie_loop_choice [OF p True _ vin] dg Some by simp
        show ?thesis
          unfolding st first_valid_choice_hit [OF yv]
          by (simp add: dp dg Some round_append_def fl)
      qed
    qed
  qed
qed

lemma is_alive_flags: "is_alive ps j = (j < length ps \<and> alive_flags ps ! j = Some True)"
  by (auto simp: is_alive_def alive_flags_def split: option.splits)

lemma length_alive_flags [simp]: "length (alive_flags ps) = length ps"
  by (simp add: alive_flags_def)

lemma alive_flags_is_alive:
  "alive_flags ps' = alive_flags ps \<Longrightarrow> is_alive ps' j = is_alive ps j"
  by (metis is_alive_flags length_alive_flags)

lemma kill_player_is_alive:
  "is_alive (players (kill_player v m)) j = (j \<noteq> v \<and> is_alive (players m) j)"
proof (cases "j = v")
  case True
  then show ?thesis
    by (auto simp: kill_player_def is_alive_def Let_def root_info_def split: option.splits)
next
  case False
  then show ?thesis
    by (simp add: is_alive_def players_kill_player_other)
qed

text \<open>
  For the executioners the Moderator consults (alive, role Executioner, of class
  \<^verbatim>\<open>roles::Executioner\<close>): when the final tally has more than one leader with the
  maximal positive count and the tie policy is None, \<open>resolve_day_lynch\<close> returns the
  decision of the first of them, in id order, that names one of the leaders; that victim
  is killed and nobody else is. When none of them names a leader, it returns None and
  every alive flag is as before.
\<close>

lemma tie_none_first_valid_executioner:
  assumes pol: "tie_policy (cfg m) = TiePolicy_None"
    and pos: "0 < max_count (day_tally (players m) (final_votes m))"
    and tie: "1 < length (day_leaders m)"
  shows "fst (resolve_day_lynch m) =
           first_valid_choice (players m) (day_leaders m) [0..<length (players m)] \<and>
         (fst (resolve_day_lynch m) = None \<longrightarrow>
            alive_flags (players (snd (resolve_day_lynch m))) = alive_flags (players m)) \<and>
         (\<forall>v. fst (resolve_day_lynch m) = Some v \<longrightarrow>
            v \<in> set (day_leaders m) \<and>
            (\<forall>j. is_alive (players (snd (resolve_day_lynch m))) j =
                   (j \<noteq> v \<and> is_alive (players m) j)))"
proof -
  define n where "n = length (players m)"
  obtain tally m3 where c: "count_final_votes m = (tally, m3)"
    by (cases "count_final_votes m")
  define leaders where "leaders = vote_leaders tally (max_count tally)"
  have tl: "tally = day_tally (players m) (final_votes m)"
    using c by (auto simp: count_final_votes_def final_votes_def Let_def)
  have pl3: "players m3 = players m"
    using c by (auto simp: count_final_votes_def Let_def)
  have pol3: "tie_policy (cfg m3) = TiePolicy_None"
    using c pol by (auto simp: count_final_votes_def Let_def root_info_def)
  have ld: "leaders = day_leaders m" by (simp add: leaders_def day_leaders_def tl Let_def)
  have pos': "\<not> max_count tally \<le> 0" using pos by (simp add: tl)
  have tie': "1 < length leaders" using tie by (simp add: ld)
  obtain r m4 where t: "resolve_tie_via_executioner leaders m3 = (r, m4)"
    by (cases "resolve_tie_via_executioner leaders m3")
  have sp: "r = first_valid_choice (players m) leaders [0..<n] \<and>
            alive_flags (players m4) = alive_flags (players m)"
    using tie_loop_spec [of "[0..<length (players m3)]" leaders m3] t
    by (simp add: resolve_tie_via_executioner_def pl3 n_def)
  have rd: "resolve_day_lynch m =
     (case r of
        None \<Rightarrow> (None, round_append (''DAY: tie -> no lynch'' @ [CHR 0x0A])
                   (root_info ''Day: tie detected; tie policy = none -> nobody is lynched'' m4))
      | Some victim \<Rightarrow>
          (Some victim,
           kill_player victim (mark_died victim
             (root_info (''Day: executioner chose victim #'' @ to_string (victim + 1))
               (round_append (''DAY: executioner-lynch ''
                    @ player_tag (deref (players m4) victim) victim
                    @ '' ('' @ role_ru (role (deref (players m4) victim)) @ '')'' @ [CHR 0x0A]) m4)))))"
    unfolding resolve_day_lynch_def c Let_def prod.case
    by (simp only: pos' if_False leaders_def [symmetric] tie' if_True pol3 TiePolicy.case t
        prod.case)
  show ?thesis
  proof (cases r)
    case None
    have "snd (resolve_day_lynch m) =
          round_append (''DAY: tie -> no lynch'' @ [CHR 0x0A])
            (root_info ''Day: tie detected; tie policy = none -> nobody is lynched'' m4)"
      by (simp add: rd None)
    then have "players (snd (resolve_day_lynch m)) = players m4" by simp
    moreover have "fst (resolve_day_lynch m) = None" by (simp add: rd None)
    ultimately show ?thesis using sp None by (simp add: ld n_def)
  next
    case (Some v)
    have vin: "v \<in> set leaders"
      using tie_loop_member [of "[0..<length (players m3)]" leaders m3 v] t Some
      by (simp add: resolve_tie_via_executioner_def)
    have f: "fst (resolve_day_lynch m) = Some v" by (simp add: rd Some)
    have a4: "is_alive (players m4) j = is_alive (players m) j" for j
      by (rule alive_flags_is_alive) (simp add: sp)
    have "is_alive (players (snd (resolve_day_lynch m))) j = (j \<noteq> v \<and> is_alive (players m) j)" for j
      by (simp add: rd Some kill_player_is_alive a4)
    then have k: "\<forall>j. is_alive (players (snd (resolve_day_lynch m))) j =
                     (j \<noteq> v \<and> is_alive (players m) j)" by blast
    have e: "first_valid_choice (players m) (day_leaders m) [0..<length (players m)] = Some v"
      using sp Some by (simp add: ld n_def)
    have vin': "v \<in> set (day_leaders m)" using vin by (simp add: ld)
    show ?thesis using k vin' by (simp add: f e)
  qed
qed

text \<open>
  C2 on a table whose only Executioner is the interactive player. Seats 0 and 1 lead the
  tally with one vote each and the tie policy is None; seat 2 is alive, holds the role
  Executioner and is the \<^verbatim>\<open>roles::Human\<close> object, whose \<^verbatim>\<open>decide_execution\<close> the
  Moderator is documented to call. The cast to \<^verbatim>\<open>roles::Executioner\<close> fails, the seat
  is skipped without being asked (the journal holds the no-lynch line only, no line of an
  executioner abstaining or choosing), and the day ends without a lynch. The same table
  with a \<^verbatim>\<open>roles::Executioner\<close> object in seat 2 that picks seat 1 lynches seat 1.
\<close>

theorem human_executioner_never_asked:
  "role (deref (players tie_human) 2) = Role_Executioner \<and>
   alive (deref (players tie_human) 2) \<and>
   is_human (deref (players tie_human) 2) \<and>
   tie_policy (cfg tie_human) = TiePolicy_None \<and>
   day_tally (players tie_human) (final_votes tie_human) = [1, 1, 0, 0] \<and>
   day_leaders tie_human = [0, 1] \<and>
   fst (resolve_day_lynch tie_human) = None \<and>
   round_log (snd (resolve_day_lynch tie_human)) = [''DAY: tie -> no lynch'' @ [CHR 0x0A]] \<and>
   alive_flags (players (snd (resolve_day_lynch tie_human))) =
     [Some True, Some True, Some True, Some True] \<and>
   fst (resolve_day_lynch tie_bot) = Some 1 \<and>
   alive_flags (players (snd (resolve_day_lynch tie_bot))) =
     [Some True, Some False, Some True, Some True]"
  by code_simp

section \<open>Night resolution: the heal\<close>

text \<open>
  C3. In \<open>resolve_night\<close>, if the doctor's heal in the night buffers is \<open>Some h\<close> and
  player \<open>h\<close> is alive, then \<open>h\<close> is not among the players killed that night (not in the
  returned list, and still alive afterwards), whatever the mafia tally, the detective's
  shot, the maniac's target and the Moderator's generator are; and the line
  \<^verbatim>\<open>NIGHT: heal-cancels <tag of h>\<close> is in the round journal, whether or not a kill on
  \<open>h\<close> was there to cancel.
\<close>

theorem heal_excludes_from_deaths:
  assumes heal: "doctor_heal m = Some h" and al: "is_alive (players m) h"
  shows "h \<notin> set (fst (resolve_night m)) \<and>
         is_alive (players (snd (resolve_night m))) h \<and>
         (''NIGHT: heal-cancels '' @ player_tag (deref (players m) h) h @ [CHR 0x0A])
            \<in> set (round_log (snd (resolve_night m)))"
proof -
  define n where "n = length (players m)"
  define m1 where "m1 = (if length (mafia_vote_counts m) \<noteq> n
                then m\<lparr>mafia_vote_counts := replicate n 0\<rparr> else m)"
  define m2 where "m2 = (if is_full_logs m1
                then (if is_open m1 then root_info (mafia_tally_console (players m) (mafia_vote_counts m1)) m1
                      else root_info ''Night: actions recorded (closed)'' m1)
                else m1)"
  define m3 where "m3 = round_append (mafia_tally_line (players m) (mafia_vote_counts m1)) m2"
  define sel where "sel = select_mafia_target (players m) (mafia_vote_counts m1) (rng m3)"
  define m4 where "m4 = m3\<lparr>rng := snd sel\<rparr>"
  define km0 where "km0 = (mark_shot (maniac_target m1) ''maniac''
                 (mark_shot (detective_shot m1) ''detective''
                   (mark_shot (fst sel) ''mafia'' (replicate n False, m4))))"
  define km where "km = apply_heal (doctor_heal m1) km0"
  define m6 where "m6 = journalist_results (journalist_queries m1) (snd km)"
  define m7 where "m7 = eavesdropper_results (eavesdrop_requests m1) (mafia_vote_counts m1)
       (detective_shot m1) (doctor_heal m1) (maniac_target m1) m6"
  define deaths where "deaths = night_deaths (fst km)"
  define m8 where "m8 = foldl apply_death m7 deaths"
  define m9 where "m9 = deaths_console deaths (clear_night_intents m8)"
  have rn: "resolve_night m = (deaths, round_write_file True m9)"
    unfolding resolve_night_def Let_def case_prod_beta m9_def m8_def deaths_def m7_def m6_def
      km_def km0_def m4_def sel_def m3_def m2_def m1_def n_def
    by simp
  have heal1: "doctor_heal m1 = Some h" by (simp add: m1_def heal)
  have pl1: "players m1 = players m" by (simp add: m1_def)
  have pl4: "players m4 = players m" by (simp add: m4_def m3_def m2_def pl1)
  have pl0: "players (snd km0) = players m" by (simp add: km0_def pl4)
  have len0: "length (fst km0) = n" by (simp add: km0_def)
  have al0: "is_alive (players (snd km0)) h" by (simp add: pl0 al)
  have hn: "h < n" using al by (simp add: is_alive_def n_def)
  have unmarked: "\<not> fst km ! h"
    unfolding km_def heal1 by (rule apply_heal_unmarks [OF al0]) (simp add: len0 hn)
  have not_dead: "h \<notin> set deaths" using unmarked by (simp add: deaths_def night_deaths_def)
  have line: "(''NIGHT: heal-cancels '' @ player_tag (deref (players m) h) h @ [CHR 0x0A])
            \<in> set (round_log (snd km))"
    unfolding km_def heal1 using apply_heal_line [OF al0] by (simp add: pl0)
  have "set (round_log (snd km)) \<subseteq> set (round_log m6)"
    unfolding m6_def by (rule journalist_results_log)
  also have "\<dots> \<subseteq> set (round_log m7)" unfolding m7_def by (rule eavesdropper_results_log)
  also have "\<dots> \<subseteq> set (round_log m8)" unfolding m8_def by (rule foldl_apply_death_log)
  also have "\<dots> = set (round_log (round_write_file True m9))" by (simp add: m9_def)
  finally have logs: "set (round_log (snd km)) \<subseteq> set (round_log (round_write_file True m9))" .
  have pl7: "players m7 = players m" by (simp add: m7_def m6_def km_def pl0)
  have "players (round_write_file True m9) ! h = players m7 ! h"
    by (simp add: m9_def m8_def foldl_apply_death_other [OF not_dead])
  moreover have "length (players (round_write_file True m9)) = length (players m)"
    by (simp add: m9_def m8_def pl7)
  ultimately have alive_after: "is_alive (players (round_write_file True m9)) h"
    using al by (simp add: is_alive_def pl7)
  show ?thesis using not_dead alive_after line logs by (auto simp: rn)
qed

text \<open>
  The theorem at two nights of the five-seat table: three attacks on the healed seat 4
  (nobody dies), and a heal of seat 4 that nobody attacked (the detective's target, seat
  0, dies); the line is written in both.
\<close>

text \<open>
  The theorem at two nights of the five-seat table: three attacks on the healed seat 4
  (nobody dies), and a heal of seat 4 that nobody attacked; the line is written in both.
\<close>

theorem heal_excludes_from_deaths_witness:
  "doctor_heal night_all_on_4 = Some 4 \<and> is_alive (players night_all_on_4) 4 \<and>
   detective_shot night_all_on_4 = Some 4 \<and> maniac_target night_all_on_4 = Some 4 \<and>
   mafia_vote_counts night_all_on_4 = [0, 0, 0, 0, 1] \<and>
   fst (resolve_night night_all_on_4) = [] \<and>
   is_alive (players (snd (resolve_night night_all_on_4))) 4 \<and>
   (''NIGHT: heal-cancels '' @ player_tag (deref (players night_all_on_4) 4) 4 @ [CHR 0x0A])
      \<in> set (round_log (snd (resolve_night night_all_on_4))) \<and>
   doctor_heal night_heal_unattacked = Some 4 \<and>
   detective_shot night_heal_unattacked = Some 0 \<and>
   maniac_target night_heal_unattacked = None \<and>
   4 \<notin> set (fst (resolve_night night_heal_unattacked)) \<and>
   (''NIGHT: heal-cancels '' @ player_tag (deref (players night_heal_unattacked) 4) 4 @ [CHR 0x0A])
      \<in> set (round_log (snd (resolve_night night_heal_unattacked)))"
proof -
  have h1: "doctor_heal night_all_on_4 = Some 4" by (simp add: night_all_on_4_def)
  have a1: "is_alive (players night_all_on_4) 4" by code_simp
  have s1: "detective_shot night_all_on_4 = Some 4" by (simp add: night_all_on_4_def)
  have t1: "maniac_target night_all_on_4 = Some 4" by (simp add: night_all_on_4_def)
  have c1: "mafia_vote_counts night_all_on_4 = [0, 0, 0, 0, 1]" by (simp add: night_all_on_4_def)
  have d1: "fst (resolve_night night_all_on_4) = []" by code_simp
  have h2: "doctor_heal night_heal_unattacked = Some 4" by (simp add: night_heal_unattacked_def)
  have a2: "is_alive (players night_heal_unattacked) 4" by code_simp
  have s2: "detective_shot night_heal_unattacked = Some 0"
    by (simp add: night_heal_unattacked_def)
  have t2: "maniac_target night_heal_unattacked = None"
    by (simp add: night_heal_unattacked_def table5_moderator_def new_moderator_def Let_def)
  note A = heal_excludes_from_deaths [OF h1 a1]
  note B = heal_excludes_from_deaths [OF h2 a2]
  show ?thesis
    by (intro conjI h1 a1 s1 t1 c1 d1 h2 s2 t2 A [THEN conjunct2, THEN conjunct1]
        A [THEN conjunct2, THEN conjunct2] B [THEN conjunct1] B [THEN conjunct2, THEN conjunct2])
qed

section \<open>Intent submission: self-targets\<close>

text \<open>
  C4, as the code has it. \<open>set_eavesdropper_target\<close> drops a submission whose target is
  the submitter, and \<open>set_journalist_compare\<close> one that names the journalist itself or
  the same player twice: the Moderator is left as it was. The other five operations have
  no self-target check: from an alive submitter (for \<open>mafia_vote_target\<close> an alive
  Mafia, for \<open>set_maniac_target\<close> an alive Maniac) a submission that names the submitter
  itself is recorded in the buffer like any other.
\<close>

theorem self_target_handling:
  "set_eavesdropper_target i i m = m \<and>
   set_journalist_compare i i b m = m \<and>
   set_journalist_compare i a i m = m \<and>
   set_journalist_compare i a a m = m \<and>
   (is_alive (players m) i \<longrightarrow>
      day_votes (submit_day_vote i i m) ! i = Some i \<and>
      detective_shot (set_detective_shot i i m) = Some i \<and>
      doctor_heal (set_doctor_heal i i m) = Some i \<and>
      (is_mafia (players m) i \<longrightarrow>
         mafia_vote_counts (mafia_vote_target i i m) ! i =
           (if length (mafia_vote_counts m) = length (players m)
            then mafia_vote_counts m ! i else 0) + 1) \<and>
      (is_maniac (players m) i \<longrightarrow> maniac_target (set_maniac_target i i m) = Some i))"
proof -
  have e: "set_eavesdropper_target i i m = m"
    by (simp add: set_eavesdropper_target_def Let_def)
  have j1: "set_journalist_compare i i b m = m"
    by (simp add: set_journalist_compare_def Let_def)
  have j2: "set_journalist_compare i a i m = m"
    by (simp add: set_journalist_compare_def Let_def)
  have j3: "set_journalist_compare i a a m = m"
    by (simp add: set_journalist_compare_def Let_def)
  have rest: "day_votes (submit_day_vote i i m) ! i = Some i \<and>
      detective_shot (set_detective_shot i i m) = Some i \<and>
      doctor_heal (set_doctor_heal i i m) = Some i \<and>
      (is_mafia (players m) i \<longrightarrow>
         mafia_vote_counts (mafia_vote_target i i m) ! i =
           (if length (mafia_vote_counts m) = length (players m)
            then mafia_vote_counts m ! i else 0) + 1) \<and>
      (is_maniac (players m) i \<longrightarrow> maniac_target (set_maniac_target i i m) = Some i)"
    if al: "is_alive (players m) i"
  proof -
    from al obtain p where lt: "i < length (players m)" and p: "players m ! i = Some p"
      and ap: "alive p"
      by (auto simp: is_alive_def split: option.splits)
    have v: "day_votes (submit_day_vote i i m) ! i = Some i"
      using lt p ap
      by (simp add: submit_day_vote_def Let_def round_append_def root_info_def is_full_logs_def)
    have s: "detective_shot (set_detective_shot i i m) = Some i"
      using lt p ap
      by (simp add: set_detective_shot_def Let_def round_append_def root_info_def
          is_full_logs_def is_open_def)
    have h: "doctor_heal (set_doctor_heal i i m) = Some i"
      using lt p ap
      by (simp add: set_doctor_heal_def Let_def round_append_def root_info_def
          is_full_logs_def is_open_def)
    have mf: "mafia_vote_counts (mafia_vote_target i i m) ! i =
           (if length (mafia_vote_counts m) = length (players m)
            then mafia_vote_counts m ! i else 0) + 1" if "is_mafia (players m) i"
      using lt p ap that
      by (simp add: mafia_vote_target_def Let_def round_append_def root_info_def
          is_full_logs_def is_open_def)
    have mn: "maniac_target (set_maniac_target i i m) = Some i" if "is_maniac (players m) i"
      using lt p ap that
      by (simp add: set_maniac_target_def Let_def round_append_def root_info_def
          is_full_logs_def is_open_def)
    show ?thesis using v s h mf mn by blast
  qed
  show ?thesis using e j1 j2 j3 rest by blast
qed

text \<open>
  The claim as stated fails on the five-seat table: the self-vote of seat 0, the mafia
  vote of seat 0 for itself, the detective's shot at itself and the maniac's target on
  itself all reach the buffers.
\<close>

theorem self_target_recorded_counterexample:
  "is_alive (players table5_moderator) 0 \<and>
   day_votes table5_moderator ! 0 = None \<and>
   day_votes (submit_day_vote 0 0 table5_moderator) ! 0 = Some 0 \<and>
   is_mafia (players table5_moderator) 0 \<and>
   mafia_vote_counts table5_moderator ! 0 = 0 \<and>
   mafia_vote_counts (mafia_vote_target 0 0 table5_moderator) ! 0 = 1 \<and>
   is_alive (players table5_moderator) 1 \<and>
   detective_shot table5_moderator = None \<and>
   detective_shot (set_detective_shot 1 1 table5_moderator) = Some 1 \<and>
   is_maniac (players table5_moderator) 3 \<and>
   maniac_target table5_moderator = None \<and>
   maniac_target (set_maniac_target 3 3 table5_moderator) = Some 3"
  by code_simp

theorem self_target_handling_witness:
  "is_alive (players table5_moderator) 0 \<and> is_mafia (players table5_moderator) 0 \<and>
   day_votes (submit_day_vote 0 0 table5_moderator) ! 0 = Some 0 \<and>
   doctor_heal (set_doctor_heal 0 0 table5_moderator) = Some 0 \<and>
   mafia_vote_counts (mafia_vote_target 0 0 table5_moderator) ! 0 = 1 \<and>
   is_alive (players table5_moderator) 3 \<and> is_maniac (players table5_moderator) 3 \<and>
   maniac_target (set_maniac_target 3 3 table5_moderator) = Some 3 \<and>
   set_eavesdropper_target 4 4 table5_moderator = table5_moderator \<and>
   set_journalist_compare 4 4 1 table5_moderator = table5_moderator"
proof -
  have a0: "is_alive (players table5_moderator) 0" by code_simp
  have m0: "is_mafia (players table5_moderator) 0" by code_simp
  have a3: "is_alive (players table5_moderator) 3" by code_simp
  have m3: "is_maniac (players table5_moderator) 3" by code_simp
  have c0: "length (mafia_vote_counts table5_moderator) = length (players table5_moderator)"
    by code_simp
  have z0: "mafia_vote_counts table5_moderator ! 0 = 0" by code_simp
  note A = self_target_handling [of 0 table5_moderator 1 1]
  note B = self_target_handling [of 3 table5_moderator 1 1]
  note C = self_target_handling [of 4 table5_moderator 1 1]
  show ?thesis using a0 m0 a3 m3 c0 z0 A B C by simp
qed

section \<open>Engine construction: the role census\<close>

lemma uniform_int_range:
  "a \<le> b \<Longrightarrow> a \<le> fst (uniform_int a b g) \<and> fst (uniform_int a b g) \<le> b"
proof -
  assume ab: "a \<le> b"
  define x where "x = (case g of [] \<Rightarrow> 0 | y # _ \<Rightarrow> y)"
  have "x mod nat (b - a + 1) < nat (b - a + 1)" using ab by simp
  then have "int (x mod nat (b - a + 1)) \<le> b - a" using ab by linarith
  then show ?thesis using ab by (simp add: uniform_int_def Let_def x_def min_def max_def)
qed

lemma shuffle_from_mset:
  "i < length xs \<Longrightarrow> mset (fst (shuffle_from i xs g)) = mset xs"
proof (induction i arbitrary: xs g)
  case 0
  show ?case by simp
next
  case (Suc i)
  obtain j g' where u: "uniform_int 0 (int (Suc i)) g = (j, g')"
    by (cases "uniform_int 0 (int (Suc i)) g")
  have r: "0 \<le> j \<and> j \<le> int (Suc i)"
    using uniform_int_range [of 0 "int (Suc i)" g] u by simp
  then have jl: "nat j < length xs" using Suc.prems by linarith
  define xs' where "xs' = xs[Suc i := xs ! nat j, nat j := xs ! Suc i]"
  have m: "mset xs' = mset xs"
    unfolding xs'_def using mset_swap [OF jl Suc.prems] by simp
  have l: "i < length xs'" using Suc.prems by (simp add: xs'_def)
  have "mset (fst (shuffle_from i xs' g')) = mset xs'" by (rule Suc.IH [OF l])
  then show ?case using u m by (simp add: xs'_def)
qed

lemma shuffle_mset: "mset (fst (shuffle xs g)) = mset xs"
proof (cases xs)
  case Nil
  then show ?thesis by (simp add: shuffle_def)
next
  case (Cons x ys)
  then have "length xs - 1 < length xs" by simp
  then show ?thesis unfolding shuffle_def by (rule shuffle_from_mset)
qed

lemma role_census_build:
  "role_census (map (\<lambda>i. Some (build_player env c h bag i)) [0..<length bag]) r =
   count (mset bag) r"
proof -
  have "filter (\<lambda>s. case s of None \<Rightarrow> False | Some p \<Rightarrow> role p = r)
          (map (\<lambda>i. Some (build_player env c h bag i)) [0..<length bag]) =
        map (\<lambda>i. Some (build_player env c h bag i)) (filter (\<lambda>i. bag ! i = r) [0..<length bag])"
    by (simp add: filter_map comp_def build_player_def)
  then have "role_census (map (\<lambda>i. Some (build_player env c h bag i)) [0..<length bag]) r =
        length (filter (\<lambda>i. bag ! i = r) [0..<length bag])"
    by (simp add: role_census_def)
  also have "\<dots> = length (filter (\<lambda>x. x = r) (map (\<lambda>i. bag ! i) [0..<length bag]))"
    by (simp add: filter_map comp_def)
  also have "\<dots> = length (filter (\<lambda>x. x = r) bag)" by (simp add: map_nth)
  also have "\<dots> = count (mset bag) r"
    by (induction bag) simp_all
  finally show ?thesis .
qed

lemma role_bag_ok:
  assumes "fixed_count c \<le> n_players c"
  shows "\<exists>bag. role_bag who c = Inr bag \<and> length bag = n_players c \<and>
           count (mset bag) Role_Mafia = mafia_count c \<and>
           count (mset bag) Role_Detective = 1 \<and>
           count (mset bag) Role_Doctor = 1 \<and>
           count (mset bag) Role_Maniac = 1 \<and>
           count (mset bag) Role_Executioner = min (executioner_count c) 1 \<and>
           count (mset bag) Role_Journalist = min (journalist_count c) 1 \<and>
           count (mset bag) Role_Eavesdropper = min (eavesdropper_count c) 1 \<and>
           count (mset bag) Role_Citizen = n_players c - fixed_count c"
  using assms by (simp add: role_bag_def fixed_count_def Let_def)

lemma role_bag_throws:
  assumes "n_players c < fixed_count c"
  shows "role_bag who c =
           Inl (Runtime_error (who @ '': not enough slots for mandatory + extra roles''))"
  using assms by (simp add: role_bag_def fixed_count_def Let_def)

lemma populate_ok:
  assumes "role_bag who c = Inr bag0"
  shows "\<exists>bag g' h. populate who env c g =
            Inr (map (\<lambda>i. Some (build_player env c h bag i)) [0..<length bag], g') \<and>
            mset bag = mset bag0"
proof -
  obtain bag g1 where sh: "shuffle bag0 g = (bag, g1)" by (cases "shuffle bag0 g")
  have m: "mset bag = mset bag0" using shuffle_mset [of bag0 g] sh by simp
  show ?thesis
    using assms sh m
    by (auto simp: populate_def Let_def split: prod.splits)
qed

lemma populate_census:
  assumes ok: "fixed_count c \<le> n_players c"
  shows "\<exists>ps g'. populate who env c g = Inr (ps, g') \<and> ps \<noteq> [] \<and> census_ok c ps"
proof -
  from role_bag_ok [OF ok, of who] obtain bag0 where b0: "role_bag who c = Inr bag0"
    and l0: "length bag0 = n_players c"
    and c0: "count (mset bag0) Role_Mafia = mafia_count c"
      "count (mset bag0) Role_Detective = 1"
      "count (mset bag0) Role_Doctor = 1"
      "count (mset bag0) Role_Maniac = 1"
      "count (mset bag0) Role_Executioner = min (executioner_count c) 1"
      "count (mset bag0) Role_Journalist = min (journalist_count c) 1"
      "count (mset bag0) Role_Eavesdropper = min (eavesdropper_count c) 1"
      "count (mset bag0) Role_Citizen = n_players c - fixed_count c"
    by blast
  from populate_ok [OF b0, of env g] obtain bag g' h where
    p: "populate who env c g =
          Inr (map (\<lambda>i. Some (build_player env c h bag i)) [0..<length bag], g')"
    and m: "mset bag = mset bag0"
    by blast
  define ps where "ps = map (\<lambda>i. Some (build_player env c h bag i)) [0..<length bag]"
  have len: "length bag = length bag0" using m by (metis size_mset)
  have cen: "role_census ps r = count (mset bag0) r" for r
    unfolding ps_def by (simp add: role_census_build m)
  have pos: "0 < n_players c" using ok by (simp add: fixed_count_def)
  have 1: "populate who env c g = Inr (ps, g')" by (simp add: p ps_def)
  have 2: "length ps = n_players c" by (simp add: ps_def len l0)
  have 3: "None \<notin> set ps" by (auto simp: ps_def)
  have 4: "ps \<noteq> []" using 2 pos by auto
  have 5: "n_players c - fixed_count c =
        n_players c - (mafia_count c + 3 + min (executioner_count c) 1
                        + min (journalist_count c) 1 + min (eavesdropper_count c) 1)"
    by (simp add: fixed_count_def)
  have "census_ok c ps"
    unfolding census_ok_def cen c0 5 using 2 3 by (simp add: mafia_count_def)
  then show ?thesis using 1 4 by blast
qed

text \<open>The sums of the role counts stay below \<open>2^64\<close>: \<^verbatim>\<open>std::size_t\<close> does not wrap.\<close>

lemma fixed_count_no_wrap:
  assumes "n_players c < 2 ^ 64"
  shows "fixed_count c < 2 ^ 64"
proof -
  have "n_players c div max 3 (k_mafia_divisor c) \<le> n_players c div 3"
    by (rule div_le_mono2) simp_all
  then have "mafia_count c \<le> max 1 (n_players c div 3)" by (simp add: mafia_count_def)
  then have "fixed_count c \<le> max 1 (n_players c div 3) + 6"
    by (simp add: fixed_count_def)
  also have "\<dots> < 2 ^ 64" using assms by simp
  finally show ?thesis .
qed

text \<open>
  C5. With \<open>N = n_players\<close>: when the non-Citizen counts (the Mafia count
  \<open>max 1 (N div max 3 k_mafia_divisor)\<close>, one Detective, one Doctor, one Maniac, and the
  configured count of Executioner, Journalist and Eavesdropper, each capped at one) sum
  to at most \<open>N\<close>, both engines build a vector of exactly \<open>N\<close> non-null players
  holding exactly those counts and Citizens in the remaining seats, whatever the shuffle
  and the human seat are, and the match starts on it. When they sum to more than \<open>N\<close>,
  both engines throw from the construction of the players, and \<^verbatim>\<open>run\<close> is left with that
  exception before anything of the match exists.
\<close>

theorem role_census_at_construction:
  "(fixed_count c \<le> n_players c \<longrightarrow>
      (\<exists>ps g'. setup_players env c g = Inr (ps, g') \<and> census_ok c ps \<and>
                threaded_run_start env c g = Inr (Playing ps g')) \<and>
      (\<exists>ps g'. init_players env c g = Inr (ps, g') \<and> census_ok c ps \<and>
                coro_run_start env c g = Inr (Playing ps g'))) \<and>
   (n_players c < fixed_count c \<longrightarrow>
      setup_players env c g =
        Inl (Runtime_error ''GameEngine::setup_players_: not enough slots for mandatory + extra roles'') \<and>
      init_players env c g =
        Inl (Runtime_error ''GameEngineCoro::init_players_: not enough slots for mandatory + extra roles'') \<and>
      threaded_run_start env c g =
        Inl (Runtime_error ''GameEngine::setup_players_: not enough slots for mandatory + extra roles'') \<and>
      coro_run_start env c g =
        Inl (Runtime_error ''GameEngineCoro::init_players_: not enough slots for mandatory + extra roles''))"
proof (intro conjI impI)
  assume ok: "fixed_count c \<le> n_players c"
  from populate_census [OF ok, of "''GameEngine::setup_players_''" env g]
  show "\<exists>ps g'. setup_players env c g = Inr (ps, g') \<and> census_ok c ps \<and>
                threaded_run_start env c g = Inr (Playing ps g')"
    by (auto simp: setup_players_def threaded_run_start_def)
  from populate_census [OF ok, of "''GameEngineCoro::init_players_''" env g]
  show "\<exists>ps g'. init_players env c g = Inr (ps, g') \<and> census_ok c ps \<and>
                coro_run_start env c g = Inr (Playing ps g')"
    by (auto simp: init_players_def coro_run_start_def)
next
  assume bad: "n_players c < fixed_count c"
  show "setup_players env c g =
        Inl (Runtime_error ''GameEngine::setup_players_: not enough slots for mandatory + extra roles'')"
    by (simp add: setup_players_def populate_def role_bag_throws [OF bad])
  show "init_players env c g =
        Inl (Runtime_error ''GameEngineCoro::init_players_: not enough slots for mandatory + extra roles'')"
    by (simp add: init_players_def populate_def role_bag_throws [OF bad])
  show "threaded_run_start env c g =
        Inl (Runtime_error ''GameEngine::setup_players_: not enough slots for mandatory + extra roles'')"
    by (simp add: threaded_run_start_def setup_players_def populate_def role_bag_throws [OF bad])
  show "coro_run_start env c g =
        Inl (Runtime_error ''GameEngineCoro::init_players_: not enough slots for mandatory + extra roles'')"
    by (simp add: coro_run_start_def init_players_def populate_def role_bag_throws [OF bad])
qed

text \<open>
  The theorem at the default configuration (nine seats, three Mafia and six other fixed
  roles: no Citizen), with the table one generator deals, and at six seats with the
  default extra roles, where eight fixed roles do not fit.
\<close>

theorem role_census_at_construction_witness:
  "fixed_count default_config \<le> n_players default_config \<and>
   (\<exists>ps g'. setup_players quiet_env default_config [3, 1, 4, 1, 5, 9, 2, 6] = Inr (ps, g') \<and>
             census_ok default_config ps) \<and>
   map (map_option role)
     (case setup_players quiet_env default_config [3, 1, 4, 1, 5, 9, 2, 6] of
        Inr (ps, g') \<Rightarrow> ps | Inl e \<Rightarrow> []) =
     [Some Role_Eavesdropper, Some Role_Executioner, Some Role_Mafia, Some Role_Maniac,
      Some Role_Mafia, Some Role_Journalist, Some Role_Doctor, Some Role_Mafia,
      Some Role_Detective] \<and>
   n_players six_seats < fixed_count six_seats \<and>
   threaded_run_start quiet_env six_seats [] =
     Inl (Runtime_error ''GameEngine::setup_players_: not enough slots for mandatory + extra roles'')"
proof -
  have ok: "fixed_count default_config \<le> n_players default_config" by code_simp
  have bad: "n_players six_seats < fixed_count six_seats" by code_simp
  have ev: "map (map_option role)
     (case setup_players quiet_env default_config [3, 1, 4, 1, 5, 9, 2, 6] of
        Inr (ps, g') \<Rightarrow> ps | Inl e \<Rightarrow> []) =
     [Some Role_Eavesdropper, Some Role_Executioner, Some Role_Mafia, Some Role_Maniac,
      Some Role_Mafia, Some Role_Journalist, Some Role_Doctor, Some Role_Mafia,
      Some Role_Detective]" by code_simp
  note A = role_census_at_construction
    [of default_config quiet_env "[3, 1, 4, 1, 5, 9, 2, 6]", THEN conjunct1, rule_format, OF ok]
  note B = role_census_at_construction
    [of six_seats quiet_env "[]", THEN conjunct2, rule_format, OF bad]
  from A have a: "\<exists>ps g'. setup_players quiet_env default_config [3, 1, 4, 1, 5, 9, 2, 6] = Inr (ps, g') \<and>
             census_ok default_config ps" by blast
  from B have b: "threaded_run_start quiet_env six_seats [] =
     Inl (Runtime_error ''GameEngine::setup_players_: not enough slots for mandatory + extra roles'')"
    by blast
  show ?thesis by (intro conjI ok a ev bad b)
qed

section \<open>The Doctor's night hook\<close>


















section \<open>Round files\<close>





lemma file_state_root_info [simp]: "file_state (root_info s m) = file_state m"
  by (simp add: file_state_def root_info_def)

lemma file_state_log_info [simp]: "file_state (log_info s m) = file_state m"
  by (simp add: log_info_def)

lemma file_state_round_append [simp]: "file_state (round_append s m) = file_state m"
  by (simp add: file_state_def round_append_def)

lemma file_state_mark_died [simp]: "file_state (mark_died v m) = file_state m"
  by (simp add: file_state_def mark_died_def)

lemma file_state_kill_player [simp]: "file_state (kill_player v m) = file_state m"
proof -
  have "file_state (m\<lparr>players := ps\<rparr>) = file_state m" for ps by (simp add: file_state_def)
  then show ?thesis by (simp add: kill_player_def Let_def split: option.splits)
qed

lemma file_state_players_update [simp]: "file_state (m\<lparr>players := ps\<rparr>) = file_state m"
  by (simp add: file_state_def)

lemma file_state_rng_update [simp]: "file_state (m\<lparr>rng := g\<rparr>) = file_state m"
  by (simp add: file_state_def)

lemma file_state_submit_day_vote [simp]: "file_state (submit_day_vote v t m) = file_state m"
proof -
  have a: "file_state (m\<lparr>day_votes := x\<rparr>) = file_state m" for x m
    by (simp add: file_state_def)
  have b: "file_state (m\<lparr>day_voted_flag := x, stats_votes_given_day := y\<rparr>) = file_state m"
    for x y m by (simp add: file_state_def)
  show ?thesis
    by (simp add: submit_day_vote_def Let_def a b split: option.splits)
qed

lemma file_state_mafia_vote_target [simp]: "file_state (mafia_vote_target v t m) = file_state m"
proof -
  have a: "file_state (m\<lparr>mafia_vote_counts := x, stats_mafia_votes := y\<rparr>) = file_state m"
    for x y m by (simp add: file_state_def)
  show ?thesis by (simp add: mafia_vote_target_def Let_def a split: option.splits)
qed

lemma file_state_set_detective_shot [simp]: "file_state (set_detective_shot v t m) = file_state m"
proof -
  have a: "file_state (m\<lparr>detective_shot := x, stats_detective_shots := y\<rparr>) = file_state m"
    for x y m by (simp add: file_state_def)
  show ?thesis by (simp add: set_detective_shot_def Let_def a split: option.splits)
qed

lemma file_state_set_doctor_heal [simp]: "file_state (set_doctor_heal v t m) = file_state m"
proof -
  have a: "file_state (m\<lparr>doctor_heal := x, stats_doctor_heals := y\<rparr>) = file_state m"
    for x y m by (simp add: file_state_def)
  show ?thesis by (simp add: set_doctor_heal_def Let_def a split: option.splits)
qed

lemma file_state_set_maniac_target [simp]: "file_state (set_maniac_target v t m) = file_state m"
proof -
  have a: "file_state (m\<lparr>maniac_target := x, stats_maniac_targets := y\<rparr>) = file_state m"
    for x y m by (simp add: file_state_def)
  show ?thesis by (simp add: set_maniac_target_def Let_def a split: option.splits)
qed

lemma file_state_set_journalist_compare [simp]:
  "file_state (set_journalist_compare j a b m) = file_state m"
proof -
  have a: "file_state (m\<lparr>journalist_queries := x\<rparr>) = file_state m" for x m
    by (simp add: file_state_def)
  show ?thesis by (simp add: set_journalist_compare_def Let_def a split: option.splits)
qed

lemma file_state_set_eavesdropper_target [simp]:
  "file_state (set_eavesdropper_target e t m) = file_state m"
proof -
  have a: "file_state (m\<lparr>eavesdrop_requests := x\<rparr>) = file_state m" for x m
    by (simp add: file_state_def)
  show ?thesis by (simp add: set_eavesdropper_target_def Let_def a split: option.splits)
qed

lemma file_state_submit [simp]: "file_state (submit m i) = file_state m"
  by (cases i) simp_all

lemma file_state_foldl_submit [simp]: "file_state (foldl submit m is) = file_state m"
  by (induction "is" arbitrary: m) simp_all



lemma file_state_lynch_lines [simp]: "file_state (lynch_lines v m) = file_state m"
  by (simp add: lynch_lines_def Let_def)


lemma file_state_mark_shot [simp]: "file_state (snd (mark_shot t src km)) = file_state (snd km)"
  by (cases km) (simp add: mark_shot_def Let_def split: option.splits)

lemma file_state_apply_heal [simp]: "file_state (snd (apply_heal h km)) = file_state (snd km)"
  by (cases km) (simp add: apply_heal_def Let_def split: option.splits)

lemma foldl_file_state_same:
  assumes "\<And>m x. file_state (f m x) = file_state m"
  shows "file_state (foldl f m xs) = file_state m"
  by (induction xs arbitrary: m) (simp_all add: assms)

lemma file_state_journalist_results [simp]:
  "file_state (journalist_results qs m) = file_state m"
  unfolding journalist_results_def
  by (rule foldl_file_state_same)
    (simp add: journalist_result_def Let_def split: prod.splits option.splits)

lemma file_state_eavesdropper_results [simp]:
  "file_state (eavesdropper_results rs c s h t m) = file_state m"
  unfolding eavesdropper_results_def
  by (rule foldl_file_state_same)
    (simp add: eavesdropper_result_def Let_def split: prod.splits option.splits)

lemma file_state_apply_death [simp]: "file_state (apply_death m i) = file_state m"
  by (simp add: apply_death_def Let_def)

lemma file_state_foldl_apply_death [simp]: "file_state (foldl apply_death m ds) = file_state m"
  by (rule foldl_file_state_same) simp

lemma file_state_clear_night_intents [simp]: "file_state (clear_night_intents m) = file_state m"
  by (simp add: clear_night_intents_def file_state_def)

lemma file_state_deaths_console [simp]: "file_state (deaths_console ds m) = file_state m"
  by (simp add: deaths_console_def)



lemma round_write_file_written: "round_written m \<Longrightarrow> round_write_file b m = m"
  by (simp add: round_write_file_def)

lemma finalize_written: "round_written m \<Longrightarrow> finalize_round_file_if_pending m = m"
  by (simp add: finalize_round_file_if_pending_def)

























section \<open>The cooperative barrier\<close>

text \<open>
  While fewer parties than expected have arrived, the counter (a \<^verbatim>\<open>std::size_t\<close>) has not
  wrapped, and it equals the expected number exactly at the last arrival.
\<close>

lemma word_count_eq:
  "k + 1 \<le> unat (e::64 word) \<Longrightarrow> ((word_of_nat k + 1 :: 64 word) = e) = (k + 1 = unat e)"
proof -
  assume a: "k + 1 \<le> unat e"
  have u: "unat (word_of_nat (k + 1) :: 64 word) = k + 1" by (rule le_unat_uoi [OF a])
  have e: "(word_of_nat (k + 1) :: 64 word) = word_of_nat k + 1" by simp
  show ?thesis
  proof
    assume "(word_of_nat k + 1 :: 64 word) = e"
    then show "k + 1 = unat e" using u unfolding e by simp
  next
    assume "k + 1 = unat e"
    then have "(word_of_nat (k + 1) :: 64 word) = e" by (simp del: of_nat_Suc of_nat_add)
    then show "(word_of_nat k + 1 :: 64 word) = e" unfolding e .
  qed
qed

lemma on_arrive_early:
  assumes "in_cycle s" and "length (waiters s) + 1 < unat (expected s)"
  shows "on_arrive cb resume h s = s\<lparr>waiters := waiters s @ [h], arrived := arrived s + 1\<rparr>"
    and "in_cycle (on_arrive cb resume h s)"
proof -
  have a: "arrived s = word_of_nat (length (waiters s))" using assms(1) by (simp add: in_cycle_def)
  have "length (waiters s) + 1 \<le> unat (expected s)" using assms(2) by simp
  from word_count_eq [OF this] assms(2)
  have ne: "arrived s + 1 \<noteq> expected s" by (simp add: a)
  show 1: "on_arrive cb resume h s = s\<lparr>waiters := waiters s @ [h], arrived := arrived s + 1\<rparr>"
    using ne by (simp add: on_arrive_def Let_def)
  show "in_cycle (on_arrive cb resume h s)"
    unfolding 1 using assms(2) by (simp add: in_cycle_def a)
qed

lemma on_arrive_last:
  assumes "in_cycle s" and "length (waiters s) + 1 = unat (expected s)"
  shows "on_arrive cb resume h s =
           foldl (resume_handle resume)
             ((case cb of None \<Rightarrow> all_arrived h s | Some f \<Rightarrow> f (all_arrived h s))\<lparr>waiters := []\<rparr>)
             (waiters (case cb of None \<Rightarrow> all_arrived h s | Some f \<Rightarrow> f (all_arrived h s)))"
proof -
  have a: "arrived s = word_of_nat (length (waiters s))" using assms(1) by (simp add: in_cycle_def)
  have "length (waiters s) + 1 \<le> unat (expected s)" using assms(2) by simp
  from word_count_eq [OF this] assms(2)
  have e: "arrived s + 1 = expected s" by (simp add: a)
  show ?thesis
    using e by (cases cb) (simp_all add: on_arrive_def Let_def all_arrived_def)
qed

lemma unfinished_in_turn_iff:
  "unfinished_in_turn resume cs s \<longleftrightarrow>
   (\<forall>k < length cs. \<not> finished (resume_in_order resume (take k cs) s) (cs ! k))"
  by (auto simp: unfinished_in_turn_def list_all_iff)

lemma foldl_resume_handle:
  "unfinished_in_turn resume cs s \<Longrightarrow>
   foldl (resume_handle resume) s (map Some cs) = resume_in_order resume cs s"
proof (induction cs arbitrary: s rule: rev_induct)
  case Nil
  then show ?case by (simp add: resume_in_order_def)
next
  case (snoc c cs)
  have u: "unfinished_in_turn resume cs s"
    unfolding unfinished_in_turn_iff
  proof (intro allI impI)
    fix k assume k: "k < length cs"
    then have "k < length (cs @ [c])" by simp
    then have "\<not> finished (resume_in_order resume (take k (cs @ [c])) s) ((cs @ [c]) ! k)"
      using snoc.prems unfolding unfinished_in_turn_iff by blast
    then show "\<not> finished (resume_in_order resume (take k cs) s) (cs ! k)"
      using k by (simp add: nth_append)
  qed
  have "length cs < length (cs @ [c])" by simp
  then have "\<not> finished (resume_in_order resume (take (length cs) (cs @ [c])) s)
               ((cs @ [c]) ! length cs)"
    using snoc.prems unfolding unfinished_in_turn_iff by blast
  then have l: "\<not> finished (resume_in_order resume cs s) c" by simp
  show ?case
    using snoc.IH [OF u] l by (simp add: resume_in_order_def resume_handle_def)
qed

lemma arrivals_early:
  assumes e: "waiters s = []" "arrived s = 0"
  shows "length cs < unat (expected s) \<Longrightarrow>
         foldl (\<lambda>s c. arrive cb resume c s) s cs =
           s\<lparr>waiters := map Some cs, arrived := word_of_nat (length cs)\<rparr>"
proof (induction cs rule: rev_induct)
  case Nil
  then show ?case using e by simp
next
  case (snoc c cs)
  define t where "t = s\<lparr>waiters := map Some cs, arrived := word_of_nat (length cs)\<rparr>"
  have l: "length cs + 1 < unat (expected s)" using snoc.prems by simp
  then have ih: "foldl (\<lambda>s c. arrive cb resume c s) s cs = t"
    using snoc.IH by (simp add: t_def)
  have ic: "in_cycle t" using l by (simp add: in_cycle_def t_def)
  have lt: "length (waiters t) + 1 < unat (expected t)" using l by (simp add: t_def)
  have "foldl (\<lambda>s c. arrive cb resume c s) s (cs @ [c]) = arrive cb resume c t"
    by (simp only: foldl_append foldl.simps ih)
  also have "\<dots> = on_arrive cb resume (Some c) t" by (simp only: arrive_def)
  also have "\<dots> = t\<lparr>waiters := waiters t @ [Some c], arrived := arrived t + 1\<rparr>"
    by (rule on_arrive_early(1) [OF ic lt])
  also have "\<dots> = s\<lparr>waiters := map Some (cs @ [c]),
                     arrived := word_of_nat (length (cs @ [c]))\<rparr>"
    by (simp add: t_def)
  finally show ?case .
qed

lemma arrivals_cycle:
  assumes e: "waiters s = []" "arrived s = 0"
    and n: "cs \<noteq> []" "length cs = unat (expected s)"
  shows "foldl (\<lambda>s c. arrive cb resume c s) s cs =
           foldl (resume_handle resume)
             ((case cb of None \<Rightarrow> s\<lparr>waiters := map Some cs\<rparr>
               | Some f \<Rightarrow> f (s\<lparr>waiters := map Some cs\<rparr>))\<lparr>waiters := []\<rparr>)
             (waiters (case cb of None \<Rightarrow> s\<lparr>waiters := map Some cs\<rparr>
                       | Some f \<Rightarrow> f (s\<lparr>waiters := map Some cs\<rparr>)))"
proof -
  obtain c cs' where cs: "cs = cs' @ [c]" using n(1) by (cases cs rule: rev_cases) auto
  define t where "t = s\<lparr>waiters := map Some cs', arrived := word_of_nat (length cs')\<rparr>"
  have l: "length cs' < unat (expected s)" using n(2) by (simp add: cs)
  have ih: "foldl (\<lambda>s c. arrive cb resume c s) s cs' = t"
    unfolding t_def by (rule arrivals_early [OF e l])
  have ic: "in_cycle t" using l by (simp add: in_cycle_def t_def)
  have lt: "length (waiters t) + 1 = unat (expected t)" using n(2) by (simp add: t_def cs)
  have aa: "all_arrived (Some c) t = s\<lparr>waiters := map Some cs\<rparr>"
    using e by (simp add: all_arrived_def t_def cs)
  have "foldl (\<lambda>s c. arrive cb resume c s) s cs = arrive cb resume c t"
    by (simp only: cs foldl_append foldl.simps ih)
  also have "\<dots> = on_arrive cb resume (Some c) t" by (simp only: arrive_def)
  finally show ?thesis
    unfolding on_arrive_last [OF ic lt, of cb resume "Some c"] aa .
qed

text \<open>
  C8, for a barrier with \<open>N\<close> parties expected, in the middle of a cycle (the waiting
  parties are as many as the counter says, fewer than \<open>N\<close>), whatever the callback and the
  resumed coroutines do.

  An arrival that is not the \<open>N\<close>-th only joins the waiters and counts: no callback runs
  and nobody is resumed, and the barrier is in the middle of the cycle still. On the
  \<open>N\<close>-th arrival the callback (if there is one) runs once, on the state in which the
  counter is zero again and all \<open>N\<close> parties, the arriving one last, still wait; then the
  waiters the barrier holds after the callback are taken out and gone through in order.
  When the callback leaves the waiters alone and no waiter has run to its end when its
  turn comes, this resumes all \<open>N\<close> coroutines in the order of their arrival, the \<open>N\<close>-th
  one last. For a whole cycle from the empty barrier: the first \<open>N - 1\<close> arrivals only
  register, and all \<open>N\<close> arrivals together are the one callback followed by the \<open>N\<close>
  resumptions in order.
\<close>

theorem phase_barrier_cycle:
  assumes "in_cycle s"
  shows
    "(length (waiters s) + 1 < unat (expected s) \<longrightarrow>
        on_arrive cb resume h s = s\<lparr>waiters := waiters s @ [h], arrived := arrived s + 1\<rparr> \<and>
        in_cycle (on_arrive cb resume h s)) \<and>
     (length (waiters s) + 1 = unat (expected s) \<longrightarrow>
        arrived (all_arrived h s) = 0 \<and>
        length (waiters (all_arrived h s)) = unat (expected s) \<and>
        last (waiters (all_arrived h s)) = h \<and>
        on_arrive None resume h s =
          foldl (resume_handle resume) ((all_arrived h s)\<lparr>waiters := []\<rparr>)
            (waiters (all_arrived h s)) \<and>
        on_arrive (Some f) resume h s =
          foldl (resume_handle resume) ((f (all_arrived h s))\<lparr>waiters := []\<rparr>)
            (waiters (f (all_arrived h s)))) \<and>
     (length (waiters s) + 1 = unat (expected s) \<and>
      waiters s @ [h] = map Some cs \<and>
      waiters (f (all_arrived h s)) = waiters (all_arrived h s) \<and>
      unfinished_in_turn resume cs ((f (all_arrived h s))\<lparr>waiters := []\<rparr>) \<longrightarrow>
        on_arrive (Some f) resume h s =
          resume_in_order resume cs ((f (all_arrived h s))\<lparr>waiters := []\<rparr>) \<and>
        length cs = unat (expected s) \<and> h = Some (last cs)) \<and>
     (waiters s = [] \<and> ds \<noteq> [] \<and> length ds = unat (expected s) \<and>
      waiters (f (s\<lparr>waiters := map Some ds\<rparr>)) = map Some ds \<and>
      unfinished_in_turn resume ds ((f (s\<lparr>waiters := map Some ds\<rparr>))\<lparr>waiters := []\<rparr>) \<longrightarrow>
        foldl (\<lambda>s c. arrive (Some f) resume c s) s (butlast ds) =
          s\<lparr>waiters := map Some (butlast ds), arrived := word_of_nat (length ds - 1)\<rparr> \<and>
        foldl (\<lambda>s c. arrive (Some f) resume c s) s ds =
          resume_in_order resume ds ((f (s\<lparr>waiters := map Some ds\<rparr>))\<lparr>waiters := []\<rparr>))"
proof (intro conjI impI)
  assume l: "length (waiters s) + 1 < unat (expected s)"
  show "on_arrive cb resume h s = s\<lparr>waiters := waiters s @ [h], arrived := arrived s + 1\<rparr>"
    by (rule on_arrive_early(1) [OF assms l])
  show "in_cycle (on_arrive cb resume h s)" by (rule on_arrive_early(2) [OF assms l])
next
  assume l: "length (waiters s) + 1 = unat (expected s)"
  show "arrived (all_arrived h s) = 0" by (simp add: all_arrived_def)
  show "length (waiters (all_arrived h s)) = unat (expected s)"
    using l by (simp add: all_arrived_def)
  show "last (waiters (all_arrived h s)) = h" by (simp add: all_arrived_def)
  show "on_arrive None resume h s =
          foldl (resume_handle resume) ((all_arrived h s)\<lparr>waiters := []\<rparr>)
            (waiters (all_arrived h s))"
    using on_arrive_last [OF assms l, of None resume h] by simp
  show "on_arrive (Some f) resume h s =
          foldl (resume_handle resume) ((f (all_arrived h s))\<lparr>waiters := []\<rparr>)
            (waiters (f (all_arrived h s)))"
    using on_arrive_last [OF assms l, of "Some f" resume h] by simp
next
  assume a: "length (waiters s) + 1 = unat (expected s) \<and>
      waiters s @ [h] = map Some cs \<and>
      waiters (f (all_arrived h s)) = waiters (all_arrived h s) \<and>
      unfinished_in_turn resume cs ((f (all_arrived h s))\<lparr>waiters := []\<rparr>)"
  then have l: "length (waiters s) + 1 = unat (expected s)"
    and m: "waiters s @ [h] = map Some cs"
    and k: "waiters (f (all_arrived h s)) = waiters (all_arrived h s)"
    and u: "unfinished_in_turn resume cs ((f (all_arrived h s))\<lparr>waiters := []\<rparr>)"
    by blast+
  have w: "waiters (f (all_arrived h s)) = map Some cs" using k m by (simp add: all_arrived_def)
  show "on_arrive (Some f) resume h s =
          resume_in_order resume cs ((f (all_arrived h s))\<lparr>waiters := []\<rparr>)"
    using on_arrive_last [OF assms l, of "Some f" resume h] foldl_resume_handle [OF u]
    by (simp add: w)
  have "length (waiters s @ [h]) = length (map Some cs)" using m by simp
  then show "length cs = unat (expected s)" using l by simp
  have "cs \<noteq> []" using m by auto
  then have "last (map Some cs) = Some (last cs)" by (simp add: last_map)
  then show "h = Some (last cs)" using m [symmetric] by simp
next
  assume a: "waiters s = [] \<and> ds \<noteq> [] \<and> length ds = unat (expected s) \<and>
      waiters (f (s\<lparr>waiters := map Some ds\<rparr>)) = map Some ds \<and>
      unfinished_in_turn resume ds ((f (s\<lparr>waiters := map Some ds\<rparr>))\<lparr>waiters := []\<rparr>)"
  then have e: "waiters s = []" and n: "ds \<noteq> []" "length ds = unat (expected s)"
    and k: "waiters (f (s\<lparr>waiters := map Some ds\<rparr>)) = map Some ds"
    and u: "unfinished_in_turn resume ds ((f (s\<lparr>waiters := map Some ds\<rparr>))\<lparr>waiters := []\<rparr>)"
    by blast+
  have z: "arrived s = 0" using assms e by (simp add: in_cycle_def)
  have "0 < length ds" using n(1) by simp
  then have "length (butlast ds) < unat (expected s)" unfolding n(2) [symmetric] by simp
  from arrivals_early [OF e z this, of "Some f" resume]
  show "foldl (\<lambda>s c. arrive (Some f) resume c s) s (butlast ds) =
          s\<lparr>waiters := map Some (butlast ds), arrived := word_of_nat (length ds - 1)\<rparr>"
    by simp
  show "foldl (\<lambda>s c. arrive (Some f) resume c s) s ds =
          resume_in_order resume ds ((f (s\<lparr>waiters := map Some ds\<rparr>))\<lparr>waiters := []\<rparr>)"
    using arrivals_cycle [OF e z n, of "Some f" resume] foldl_resume_handle [OF u]
    by (simp add: k)
qed

text \<open>
  The theorem on a barrier for three parties whose callback and coroutines write a log:
  the first arrival leaves the log empty, the third one (and the cycle as a whole) gives
  the callback, which saw the counter at 0 and three parties waiting, and then the three
  resumptions in order. On a barrier for two parties whose coroutines await it once more
  when resumed, the second cycle completes inside the resumption of the last waiter.
\<close>

theorem phase_barrier_cycle_witness:
  "in_cycle (barrier_of 3) \<and>
   length (waiters (barrier_of 3)) + 1 < unat (expected (barrier_of 3)) \<and>
   waiters (on_arrive (Some note_complete) note_resume (Some 7) (barrier_of 3)) = [Some 7] \<and>
   outside (on_arrive (Some note_complete) note_resume (Some 7) (barrier_of 3)) = [] \<and>
   in_cycle ((barrier_of 3)\<lparr>waiters := [Some 7, Some 8], arrived := 2\<rparr>) \<and>
   length (waiters ((barrier_of 3)\<lparr>waiters := [Some 7, Some 8], arrived := 2\<rparr>)) + 1 =
     unat (expected ((barrier_of 3)\<lparr>waiters := [Some 7, Some 8], arrived := 2\<rparr>)) \<and>
   outside (on_arrive (Some note_complete) note_resume (Some 9)
              ((barrier_of 3)\<lparr>waiters := [Some 7, Some 8], arrived := 2\<rparr>)) =
     [Completed 0 3, Resumed 7, Resumed 8, Resumed 9] \<and>
   waiters (barrier_of 3) = [] \<and>
   length [7, 8, 9::nat] = unat (expected (barrier_of 3)) \<and>
   unfinished_in_turn note_resume [7, 8, 9]
     ((note_complete ((barrier_of 3)\<lparr>waiters := map Some [7, 8, 9]\<rparr>))\<lparr>waiters := []\<rparr>) \<and>
   outside (foldl (\<lambda>s c. arrive (Some note_complete) note_resume c s) (barrier_of 3) [7, 8]) = [] \<and>
   outside (foldl (\<lambda>s c. arrive (Some note_complete) note_resume c s) (barrier_of 3) [7, 8, 9]) =
     [Completed 0 3, Resumed 7, Resumed 8, Resumed 9] \<and>
   unfinished_in_turn await_again [1, 2]
     ((note_complete ((barrier_of 2)\<lparr>waiters := map Some [1, 2]\<rparr>))\<lparr>waiters := []\<rparr>) \<and>
   outside (foldl (\<lambda>s c. arrive (Some note_complete) await_again c s) (barrier_of 2) [1, 2]) =
     [Completed 0 2, Resumed 1, Resumed 2, Completed 0 2, Resumed 1, Resumed 2]"
proof -
  define s2 where "s2 = (barrier_of 3)\<lparr>waiters := [Some 7, Some 8], arrived := 2\<rparr>"
  define c3 where "c3 = (note_complete ((barrier_of 3)\<lparr>waiters := map Some [7, 8, 9]\<rparr>))\<lparr>waiters := []\<rparr>"
  define c2 where "c2 = (note_complete ((barrier_of 2)\<lparr>waiters := map Some [1, 2]\<rparr>))\<lparr>waiters := []\<rparr>"
  have i3: "in_cycle (barrier_of 3)" by code_simp
  have l3: "length (waiters (barrier_of 3)) + 1 < unat (expected (barrier_of 3))" by code_simp
  have w3: "waiters (barrier_of 3) = []" by code_simp
  have o3: "outside (barrier_of 3) = []" by code_simp
  have n3: "length [7, 8, 9::nat] = unat (expected (barrier_of 3))" by code_simp
  have i2: "in_cycle s2" unfolding s2_def by code_simp
  have l2: "length (waiters s2) + 1 = unat (expected s2)" unfolding s2_def by code_simp
  have m2: "waiters s2 @ [Some 9] = map Some [7, 8, 9]" unfolding s2_def by code_simp
  have a2: "(note_complete (all_arrived (Some 9) s2))\<lparr>waiters := []\<rparr> = c3"
    unfolding s2_def c3_def by (simp add: all_arrived_def barrier_of_def note_complete_def)
  have k2: "waiters (note_complete (all_arrived (Some 9) s2)) = waiters (all_arrived (Some 9) s2)"
    by (simp add: note_complete_def)
  have k3: "waiters (note_complete ((barrier_of 3)\<lparr>waiters := map Some [7, 8, 9]\<rparr>)) =
            map Some [7, 8, 9]"
    by (simp add: note_complete_def)
  have u3: "unfinished_in_turn note_resume [7, 8, 9] c3" unfolding c3_def by code_simp
  have r3: "outside (resume_in_order note_resume [7, 8, 9] c3) =
            [Completed 0 3, Resumed 7, Resumed 8, Resumed 9]"
    unfolding c3_def by code_simp
  have ib: "in_cycle (barrier_of 2)" by code_simp
  have wb: "waiters (barrier_of 2) = []" by code_simp
  have nb: "length [1, 2::nat] = unat (expected (barrier_of 2))" by code_simp
  have kb: "waiters (note_complete ((barrier_of 2)\<lparr>waiters := map Some [1, 2]\<rparr>)) =
            map Some [1, 2]"
    by (simp add: note_complete_def)
  have ub: "unfinished_in_turn await_again [1, 2] c2" unfolding c2_def by code_simp
  have rb: "outside (resume_in_order await_again [1, 2] c2) =
            [Completed 0 2, Resumed 1, Resumed 2, Completed 0 2, Resumed 1, Resumed 2]"
    unfolding c2_def by code_simp
  note T1 = phase_barrier_cycle [OF i3, where cb = "Some note_complete" and resume = note_resume
      and h = "Some 7" and f = note_complete and ds = "[7, 8, 9]"]
  note T2 = phase_barrier_cycle [OF i2, where resume = note_resume and h = "Some 9"
      and f = note_complete and cs = "[7, 8, 9]"]
  note T3 = phase_barrier_cycle [OF ib, where resume = await_again and f = note_complete
      and ds = "[1, 2]"]
  have e1: "on_arrive (Some note_complete) note_resume (Some 7) (barrier_of 3) =
            (barrier_of 3)\<lparr>waiters := waiters (barrier_of 3) @ [Some 7],
                            arrived := arrived (barrier_of 3) + 1\<rparr>"
    using T1 [THEN conjunct1] l3 by blast
  have e1w: "waiters (on_arrive (Some note_complete) note_resume (Some 7) (barrier_of 3)) =
             [Some 7]"
    unfolding e1 by (simp add: w3)
  have e1o: "outside (on_arrive (Some note_complete) note_resume (Some 7) (barrier_of 3)) = []"
    unfolding e1 by (simp add: o3)
  have h2: "length (waiters s2) + 1 = unat (expected s2) \<and>
      waiters s2 @ [Some 9] = map Some [7, 8, 9] \<and>
      waiters (note_complete (all_arrived (Some 9) s2)) = waiters (all_arrived (Some 9) s2) \<and>
      unfinished_in_turn note_resume [7, 8, 9]
        ((note_complete (all_arrived (Some 9) s2))\<lparr>waiters := []\<rparr>)"
    unfolding a2 by (intro conjI l2 m2 k2 u3)
  have e2: "on_arrive (Some note_complete) note_resume (Some 9) s2 =
            resume_in_order note_resume [7, 8, 9] c3"
    using T2 [THEN conjunct2, THEN conjunct2, THEN conjunct1, THEN mp, OF h2, THEN conjunct1]
    unfolding a2 .
  have e2o: "outside (on_arrive (Some note_complete) note_resume (Some 9) s2) =
             [Completed 0 3, Resumed 7, Resumed 8, Resumed 9]"
    unfolding e2 by (rule r3)
  have h3: "waiters (barrier_of 3) = [] \<and> [7, 8, 9::nat] \<noteq> [] \<and>
      length [7, 8, 9::nat] = unat (expected (barrier_of 3)) \<and>
      waiters (note_complete ((barrier_of 3)\<lparr>waiters := map Some [7, 8, 9]\<rparr>)) =
        map Some [7, 8, 9] \<and>
      unfinished_in_turn note_resume [7, 8, 9]
        ((note_complete ((barrier_of 3)\<lparr>waiters := map Some [7, 8, 9]\<rparr>))\<lparr>waiters := []\<rparr>)"
    using u3 unfolding c3_def by (intro conjI w3 n3 k3) simp_all
  note C3 = T1 [THEN conjunct2, THEN conjunct2, THEN conjunct2, THEN mp, OF h3]
  have e3a: "outside (foldl (\<lambda>s c. arrive (Some note_complete) note_resume c s)
                        (barrier_of 3) [7, 8]) = []"
    using C3 [THEN conjunct1] by (simp add: o3)
  have e3b: "outside (foldl (\<lambda>s c. arrive (Some note_complete) note_resume c s)
                        (barrier_of 3) [7, 8, 9]) =
             [Completed 0 3, Resumed 7, Resumed 8, Resumed 9]"
    unfolding C3 [THEN conjunct2] c3_def [symmetric] by (rule r3)
  have hb: "waiters (barrier_of 2) = [] \<and> [1, 2::nat] \<noteq> [] \<and>
      length [1, 2::nat] = unat (expected (barrier_of 2)) \<and>
      waiters (note_complete ((barrier_of 2)\<lparr>waiters := map Some [1, 2]\<rparr>)) =
        map Some [1, 2] \<and>
      unfinished_in_turn await_again [1, 2]
        ((note_complete ((barrier_of 2)\<lparr>waiters := map Some [1, 2]\<rparr>))\<lparr>waiters := []\<rparr>)"
    using ub unfolding c2_def by (intro conjI wb nb kb) simp_all
  note CB = T3 [THEN conjunct2, THEN conjunct2, THEN conjunct2, THEN mp, OF hb]
  have eb: "outside (foldl (\<lambda>s c. arrive (Some note_complete) await_again c s)
                       (barrier_of 2) [1, 2]) =
            [Completed 0 2, Resumed 1, Resumed 2, Completed 0 2, Resumed 1, Resumed 2]"
    unfolding CB [THEN conjunct2] c2_def [symmetric] by (rule rb)
  show ?thesis
    unfolding s2_def [symmetric] c3_def [symmetric] c2_def [symmetric]
    by (intro conjI i3 l3 e1w e1o i2 l2 e2o w3 n3 u3 e3a e3b ub eb)
qed

end
